theory Spec2Isabelle
  imports Complex_Main "HOL-Library.Word" "HOL-Library.AList"
begin

section \<open>The host's dynamic values\<close>

text \<open>
  The binding \<^verbatim>\<open>__ollama__\<close> (file \<^verbatim>\<open>src/__ollama__.cc\<close> of the repository; an older
  copy of the file, which does not know the parameters \<^verbatim>\<open>unloadModel\<close>, \<^verbatim>\<open>message\<close>,
  \<^verbatim>\<open>systemMessage\<close> and \<^verbatim>\<open>think\<close>, is not the one modelled here) receives a flat list of
  \<^verbatim>\<open>octave_value\<close>s. The model keeps of a host value
  what the binding can observe: its class, its dimensions (two-dimensional) and its
  elements. A character array is a row vector. \<open>OCell r c vs\<close> is the r-by-c cell array
  whose elements, in column-major order, are \<open>vs\<close>; an element that \<open>vs\<close> does not
  list is the empty matrix, the default element of a cell array. \<open>OScalar\<close> is a 1-by-1
  numeric or logical value, \<open>OMatrix\<close> every other numeric or logical array, \<open>OStruct\<close>
  a 1-by-1 structure and \<open>OStruct_array\<close> every other structure array.
\<close>

datatype num_class = Double_class | Single_class | Logical_class | Integer_class

datatype octave_value =
    OString string
  | OScalar num_class real
  | OMatrix num_class nat nat "real list"
  | OCell nat nat "octave_value list"
  | OStruct "(string \<times> octave_value) list"
  | OStruct_array nat nat
  | OFunction_handle string

definition obool :: "bool \<Rightarrow> octave_value" where
  "obool b = OScalar Logical_class (if b then 1 else 0)"

fun isempty :: "octave_value \<Rightarrow> bool" where
  "isempty (OString s) = (s = [])"
| "isempty (OScalar k x) = False"
| "isempty (OMatrix k r c xs) = (r = 0 \<or> c = 0)"
| "isempty (OCell r c vs) = (r = 0 \<or> c = 0)"
| "isempty (OStruct fs) = False"
| "isempty (OStruct_array r c) = (r = 0 \<or> c = 0)"
| "isempty (OFunction_handle f) = False"

fun is_string :: "octave_value \<Rightarrow> bool" where
  "is_string (OString s) = True"
| "is_string v = False"

fun is_scalar_type :: "octave_value \<Rightarrow> bool" where
  "is_scalar_type (OScalar k x) = True"
| "is_scalar_type v = False"

fun is_double_type :: "octave_value \<Rightarrow> bool" where
  "is_double_type (OScalar k x) = (k = Double_class)"
| "is_double_type (OMatrix k r c xs) = (k = Double_class)"
| "is_double_type v = False"

fun iscell :: "octave_value \<Rightarrow> bool" where
  "iscell (OCell r c vs) = True"
| "iscell v = False"

definition empty_matrix :: octave_value where
  "empty_matrix = OMatrix Double_class 0 0 []"

definition element :: "octave_value list \<Rightarrow> nat \<Rightarrow> octave_value" where
  "element vs k = (if k < length vs then vs ! k else empty_matrix)"

fun iscellstr :: "octave_value \<Rightarrow> bool" where
  "iscellstr (OCell r c vs) = list_all (\<lambda>k. is_string (element vs k)) [0..<r * c]"
| "iscellstr v = False"

fun isstruct :: "octave_value \<Rightarrow> bool" where
  "isstruct (OStruct fs) = True"
| "isstruct (OStruct_array r c) = True"
| "isstruct v = False"

text \<open>
  The conversions of the host that the binding applies to values it has not checked
  (\<^verbatim>\<open>int_value\<close>, \<^verbatim>\<open>double_value\<close>, \<^verbatim>\<open>bool_value\<close> on the fields of \<^verbatim>\<open>options\<close>,
  \<^verbatim>\<open>string_value\<close> on the cells of \<^verbatim>\<open>message\<close>) belong to the host, not to this
  repository: they are a parameter. Each either converts or raises a host error
  (\<open>Inl\<close>, with the host's message).
\<close>

record host =
  conv_int :: "octave_value \<Rightarrow> string + int"
  conv_double :: "octave_value \<Rightarrow> string + real"
  conv_bool :: "octave_value \<Rightarrow> string + bool"
  conv_string :: "octave_value \<Rightarrow> string + string"

fun string_value :: "host \<Rightarrow> octave_value \<Rightarrow> string + string" where
  "string_value H (OString s) = Inr s"
| "string_value H v = conv_string H v"

fun double_value :: "host \<Rightarrow> octave_value \<Rightarrow> string + real" where
  "double_value H (OScalar k x) = Inr x"
| "double_value H v = conv_double H v"

definition int_value :: "host \<Rightarrow> octave_value \<Rightarrow> string + int" where
  "int_value H v = conv_int H v"

definition bool_value :: "host \<Rightarrow> octave_value \<Rightarrow> string + bool" where
  "bool_value H v = conv_bool H v"

text \<open>
  \<^verbatim>\<open>cell_value\<close> raises a host error on a value that is not a cell array;
  \<^verbatim>\<open>scalar_map_value\<close> raises one on a structure array that is not 1-by-1.
\<close>

record cell =
  cell_rows :: nat
  cell_columns :: nat
  cell_data :: "octave_value list"

fun cell_value :: "octave_value \<Rightarrow> string + cell" where
  "cell_value (OCell r c vs) = Inr \<lparr>cell_rows = r, cell_columns = c, cell_data = vs\<rparr>"
| "cell_value v = Inl ''wrong type argument: cell array expected''"

definition numel :: "cell \<Rightarrow> nat" where
  "numel C = cell_rows C * cell_columns C"

text \<open>
  Element access \<^verbatim>\<open>C(k)\<close> and \<^verbatim>\<open>C(r,c)\<close> is not bounds-checked by the host: a read
  at an index that is not below the number of elements is \<open>None\<close> here, and the
  functions below turn it into the outcome \<open>Out_of_bounds\<close>.
\<close>

definition elem :: "cell \<Rightarrow> nat \<Rightarrow> octave_value option" where
  "elem C k = (if k < numel C then Some (element (cell_data C) k) else None)"

definition elem2 :: "cell \<Rightarrow> nat \<Rightarrow> nat \<Rightarrow> octave_value option" where
  "elem2 C r c = elem C (r + cell_rows C * c)"

fun columns :: "octave_value \<Rightarrow> nat" where
  "columns (OString s) = length s"
| "columns (OScalar k x) = 1"
| "columns (OMatrix k r c xs) = c"
| "columns (OCell r c vs) = c"
| "columns (OStruct fs) = 1"
| "columns (OStruct_array r c) = c"
| "columns (OFunction_handle f) = 1"

fun scalar_map_value :: "octave_value \<Rightarrow> string + (string \<times> octave_value) list" where
  "scalar_map_value (OStruct fs) = Inr fs"
| "scalar_map_value (OStruct_array r c) =
     Inl ''invalid conversion of multi-dimensional struct to scalar struct''"
| "scalar_map_value v = Inl ''wrong type argument: struct expected''"

definition isfield :: "(string \<times> octave_value) list \<Rightarrow> string \<Rightarrow> bool" where
  "isfield opt k = (map_of opt k \<noteq> None)"

definition contents :: "(string \<times> octave_value) list \<Rightarrow> string \<Rightarrow> octave_value" where
  "contents opt k = (case map_of opt k of Some v \<Rightarrow> v | None \<Rightarrow> empty_matrix)"

section \<open>The client library\<close>

text \<open>
  The client library \<^verbatim>\<open>ollama-hpp\<close> is not part of the repository: it is a parameter of the
  model. Every call of the binding into it is recorded, in order, in a list of \<open>call\<close>s;
  the answer of the library to a call may depend on all the calls made before it (the
  server address, the time-outs, the state of the server). A function that fetches data
  answers with a value or throws; \<^verbatim>\<open>catch (ollama::exception&)\<close> handles an
  \<open>Ollama_exception\<close> and lets every other exception pass.
\<close>

datatype exn = Ollama_exception string | Other_exception string

datatype ollama_image = Image string

datatype ollama_message = Message string string "ollama_image list"

datatype opt_value = Opt_int int | Opt_double real | Opt_bool bool

type_synonym ollama_options = "(string \<times> opt_value) list"

datatype json = Json (dump: string)

datatype response = Response (as_json_string: string)

datatype call =
    Is_running
  | Set_server_url string
  | Set_read_timeout real
  | Set_write_timeout real
  | Image_from_file string
  | Get_version
  | Load_model string
  | Pull_model string
  | Copy_model string string
  | Delete_model string
  | Unload_model string
  | List_models
  | Show_model_info string
  | List_model_json
  | List_running_models
  | Running_model_json
  | Generate string string string string ollama_options "ollama_image list"
  | Chat string "ollama_message list" string string ollama_options

record library =
  is_running :: "call list \<Rightarrow> bool"
  image_from_file :: "call list \<Rightarrow> string \<Rightarrow> exn + ollama_image"
  get_version :: "call list \<Rightarrow> exn + string"
  load_model :: "call list \<Rightarrow> string \<Rightarrow> exn + bool"
  pull_model :: "call list \<Rightarrow> string \<Rightarrow> exn + bool"
  copy_model :: "call list \<Rightarrow> string \<Rightarrow> string \<Rightarrow> exn + bool"
  delete_model :: "call list \<Rightarrow> string \<Rightarrow> exn + bool"
  unload_model :: "call list \<Rightarrow> string \<Rightarrow> exn + bool"
  list_models :: "call list \<Rightarrow> exn + string list"
  show_model_info :: "call list \<Rightarrow> string \<Rightarrow> exn + json"
  list_model_json :: "call list \<Rightarrow> exn + json"
  list_running_models :: "call list \<Rightarrow> exn + string list"
  running_model_json :: "call list \<Rightarrow> exn + json"
  generate :: "call list \<Rightarrow> string \<Rightarrow> string \<Rightarrow> string \<Rightarrow> string \<Rightarrow> ollama_options
                 \<Rightarrow> ollama_image list \<Rightarrow> exn + response"
  chat :: "call list \<Rightarrow> string \<Rightarrow> ollama_message list \<Rightarrow> string \<Rightarrow> string \<Rightarrow> ollama_options
             \<Rightarrow> exn + response"

definition from_base64_string :: "string \<Rightarrow> ollama_image" where
  "from_base64_string s = Image s"

section \<open>Outcomes and the local variables of the binding\<close>

text \<open>
  A call of the binding ends in one of four ways: the host's \<^verbatim>\<open>error\<close> is raised
  (\<open>Error\<close>, with its message), an exception of the library leaves the function
  (\<open>Uncaught\<close>), an array is read outside its bounds (\<open>Out_of_bounds\<close>), or the two
  outputs are returned (\<open>Returned\<close>; an output that was never assigned is \<open>None\<close>).
\<close>

datatype outcome =
    Error string
  | Uncaught exn
  | Out_of_bounds
  | Returned "octave_value option" "octave_value option"

record pstate =
  calls :: "call list"
  retval0 :: "octave_value option"
  retval1 :: "octave_value option"
  running :: bool
  model :: string
  prompt :: string
  has_prompt :: bool
  sysmsg :: string
  think :: string
  images :: "ollama_image list"
  has_images :: bool
  options :: ollama_options
  has_options :: bool
  messages :: "ollama_message list"
  has_messages :: bool
  query_status :: bool
  query_version :: bool
  source :: string
  target :: string
  do_loadModel :: bool
  do_pullModel :: bool
  do_copyModel :: bool
  do_deleteModel :: bool
  do_unloadModel :: bool
  modelInfoName :: string
  do_modelInfo :: bool
  do_listModels :: bool
  do_listRunningModels :: bool
  return_cellstr :: bool

datatype 'a step = Stop outcome "call list" | Continue 'a

definition error :: "pstate \<Rightarrow> string \<Rightarrow> 'a step" where
  "error st msg = Stop (Error msg) (calls st)"

definition called :: "pstate \<Rightarrow> call \<Rightarrow> pstate" where
  "called st c = st\<lparr>calls := calls st @ [c]\<rparr>"

definition return_retval :: "pstate \<Rightarrow> outcome \<times> call list" where
  "return_retval st = (Returned (retval0 st) (retval1 st), calls st)"

definition with_string :: "host \<Rightarrow> pstate \<Rightarrow> octave_value \<Rightarrow> (string \<Rightarrow> 'a step) \<Rightarrow> 'a step" where
  "with_string H st v k = (case string_value H v of Inl e \<Rightarrow> error st e | Inr s \<Rightarrow> k s)"

definition with_elem :: "pstate \<Rightarrow> octave_value option \<Rightarrow> (octave_value \<Rightarrow> 'a step) \<Rightarrow> 'a step" where
  "with_elem st x k = (case x of None \<Rightarrow> Stop Out_of_bounds (calls st) | Some v \<Rightarrow> k v)"

definition with_cell :: "pstate \<Rightarrow> octave_value \<Rightarrow> (cell \<Rightarrow> 'a step) \<Rightarrow> 'a step" where
  "with_cell st v k = (case cell_value v of Inl e \<Rightarrow> error st e | Inr C \<Rightarrow> k C)"

definition and_then :: "'a step \<Rightarrow> ('a \<Rightarrow> 'b step) \<Rightarrow> 'b step" where
  "and_then r k = (case r of Stop out cs \<Rightarrow> Stop out cs | Continue x \<Rightarrow> k x)"

text \<open>
  \<^verbatim>\<open>ollama::image::from_file\<close> reads the file; outside a \<^verbatim>\<open>try\<close> block an exception of
  it leaves the binding.
\<close>

definition from_file :: "library \<Rightarrow> pstate \<Rightarrow> string \<Rightarrow> (ollama_image \<Rightarrow> pstate \<Rightarrow> 'a step) \<Rightarrow> 'a step" where
  "from_file L st path k =
     (case image_from_file L (calls st) path of
        Inl x \<Rightarrow> Stop (Uncaught x) (calls st @ [Image_from_file path])
      | Inr im \<Rightarrow> k im (called st (Image_from_file path)))"

section \<open>The parameters, one branch each\<close>

definition param_model :: "host \<Rightarrow> pstate \<Rightarrow> octave_value \<Rightarrow> pstate step" where
  "param_model H st v =
     (if \<not> is_string v then error st ''__ollama__: 'model' value must be a character vector.''
      else with_string H st v (\<lambda>s. Continue (st\<lparr>model := s\<rparr>)))"

definition param_prompt :: "host \<Rightarrow> pstate \<Rightarrow> octave_value \<Rightarrow> pstate step" where
  "param_prompt H st v =
     (if has_messages st then error st ''__ollama__: specify either 'prompt' or 'message'.''
      else let st1 = st\<lparr>has_prompt := True\<rparr> in
        if \<not> is_string v then error st1 ''__ollama__: 'prompt' value must be a character vector.''
        else with_string H st1 v (\<lambda>s. Continue (st1\<lparr>prompt := s\<rparr>)))"

definition param_serverURL :: "library \<Rightarrow> host \<Rightarrow> pstate \<Rightarrow> octave_value \<Rightarrow> pstate step" where
  "param_serverURL L H st v =
     (if \<not> is_string v then error st ''__ollama__: 'serverURL' value must be a character vector.''
      else with_string H st v (\<lambda>s.
        let st1 = called st (Set_server_url s);
            st2 = (called st1 Is_running)\<lparr>running := is_running L (calls st1)\<rparr>
        in if \<not> running st2
           then (let st3 = st2\<lparr>retval0 := Some (obool (running st2)), retval1 := Some (obool True)\<rparr>
                 in Stop (Returned (retval0 st3) (retval1 st3)) (calls st3))
           else Continue st2))"

definition param_readTimeout :: "host \<Rightarrow> pstate \<Rightarrow> octave_value \<Rightarrow> pstate step" where
  "param_readTimeout H st v =
     (if \<not> is_scalar_type v \<or> \<not> is_double_type v
      then error st ''__ollama__: 'readTimeout' value must be a double scalar.''
      else case double_value H v of
             Inl e \<Rightarrow> error st e
           | Inr d \<Rightarrow> Continue (called st (Set_read_timeout d)))"

definition param_writeTimeout :: "host \<Rightarrow> pstate \<Rightarrow> octave_value \<Rightarrow> pstate step" where
  "param_writeTimeout H st v =
     (if \<not> is_scalar_type v \<or> \<not> is_double_type v
      then error st ''__ollama__: 'writeTimeout' value must be a double scalar.''
      else case double_value H v of
             Inl e \<Rightarrow> error st e
           | Inr d \<Rightarrow> Continue (called st (Set_write_timeout d)))"

definition param_Query :: "host \<Rightarrow> pstate \<Rightarrow> octave_value \<Rightarrow> pstate step" where
  "param_Query H st v =
     (if \<not> is_string v then error st ''__ollama__: 'Query' value must be a character vector.''
      else with_string H st v (\<lambda>s.
        if s = ''status'' then Continue (st\<lparr>query_status := True\<rparr>)
        else if s = ''version'' then Continue (st\<lparr>query_version := True\<rparr>)
        else error st ''__ollama__: invalid value for 'Query'.''))"

definition param_loadModel :: "host \<Rightarrow> pstate \<Rightarrow> octave_value \<Rightarrow> pstate step" where
  "param_loadModel H st v =
     (if \<not> is_string v then error st ''__ollama__: 'loadModel' value must be a character vector.''
      else if do_pullModel st \<or> do_copyModel st \<or> do_deleteModel st \<or> do_unloadModel st
      then error st ''__ollama__: either load, pull, copy, delete, or unload a model.''
      else with_string H st v (\<lambda>s. Continue (st\<lparr>source := s, do_loadModel := True\<rparr>)))"

definition param_pullModel :: "host \<Rightarrow> pstate \<Rightarrow> octave_value \<Rightarrow> pstate step" where
  "param_pullModel H st v =
     (if \<not> is_string v then error st ''__ollama__: 'pullModel' value must be a character vector.''
      else if do_loadModel st \<or> do_copyModel st \<or> do_deleteModel st \<or> do_unloadModel st
      then error st ''__ollama__: either load, pull, copy, delete, or unload a model.''
      else with_string H st v (\<lambda>s. Continue (st\<lparr>source := s, do_pullModel := True\<rparr>)))"

definition param_copyModel :: "host \<Rightarrow> pstate \<Rightarrow> octave_value \<Rightarrow> pstate step" where
  "param_copyModel H st v =
     (if \<not> iscellstr v
      then error st ''__ollama__: 'copyModel' value must be a cellstring with two elements.''
      else with_cell st v (\<lambda>fnames.
        if numel fnames \<noteq> 2
        then error st ''__ollama__: 'copyModel' value must be a cellstring with two elements.''
        else if do_loadModel st \<or> do_pullModel st \<or> do_deleteModel st \<or> do_unloadModel st
        then error st ''__ollama__: either load, pull, copy, delete, or unload a model.''
        else with_elem st (elem fnames 0) (\<lambda>f0. with_string H st f0 (\<lambda>s.
             with_elem st (elem fnames 1) (\<lambda>f1. with_string H st f1 (\<lambda>t.
               Continue (st\<lparr>source := s, target := t, do_copyModel := True\<rparr>)))))))"

definition param_deleteModel :: "host \<Rightarrow> pstate \<Rightarrow> octave_value \<Rightarrow> pstate step" where
  "param_deleteModel H st v =
     (if \<not> is_string v then error st ''__ollama__: 'deleteModel' value must be a character vector.''
      else if do_loadModel st \<or> do_pullModel st \<or> do_copyModel st \<or> do_unloadModel st
      then error st ''__ollama__: either load, pull, copy, delete, or unload a model.''
      else with_string H st v (\<lambda>s. Continue (st\<lparr>source := s, do_deleteModel := True\<rparr>)))"

definition param_unloadModel :: "host \<Rightarrow> pstate \<Rightarrow> octave_value \<Rightarrow> pstate step" where
  "param_unloadModel H st v =
     (if \<not> is_string v then error st ''__ollama__: 'loadModel' value must be a character vector.''
      else if do_loadModel st \<or> do_pullModel st \<or> do_copyModel st \<or> do_deleteModel st
      then error st ''__ollama__: either load, pull, copy, delete, or unload a model.''
      else with_string H st v (\<lambda>s. Continue (st\<lparr>source := s, do_unloadModel := True\<rparr>)))"

definition param_modelInfo :: "host \<Rightarrow> pstate \<Rightarrow> octave_value \<Rightarrow> pstate step" where
  "param_modelInfo H st v =
     (if \<not> is_string v then error st ''__ollama__: 'modelInfo' value must be a character vector.''
      else with_string H st v (\<lambda>s. Continue (st\<lparr>modelInfoName := s, do_modelInfo := True\<rparr>)))"

definition param_listModels :: "host \<Rightarrow> pstate \<Rightarrow> octave_value \<Rightarrow> pstate step" where
  "param_listModels H st v =
     (if \<not> is_string v then error st ''__ollama__: 'listModels' value must be a character vector.''
      else with_string H st v (\<lambda>s.
        and_then
          (if s = ''cellstr'' then Continue (st\<lparr>return_cellstr := True\<rparr>)
           else if s \<noteq> ''json'' then error st ''__ollama__: invalid value for 'listModels'.''
           else Continue st)
          (\<lambda>st1. if do_listRunningModels st1
             then error st1 ''__ollama__: specify either 'listModels' or 'listRunningModels'.''
             else Continue (st1\<lparr>do_listModels := True\<rparr>))))"

definition param_listRunningModels :: "host \<Rightarrow> pstate \<Rightarrow> octave_value \<Rightarrow> pstate step" where
  "param_listRunningModels H st v =
     (if \<not> is_string v
      then error st ''__ollama__: 'listRunningModels' name must be a character vector.''
      else with_string H st v (\<lambda>s.
        and_then
          (if s = ''cellstr'' then Continue (st\<lparr>return_cellstr := True\<rparr>)
           else if s \<noteq> ''json'' then error st ''__ollama__: invalid value for 'listRunningModels'.''
           else Continue st)
          (\<lambda>st1. if do_listModels st1
             then error st1 ''__ollama__: specify either 'listModels' or 'listRunningModels'.''
             else Continue (st1\<lparr>do_listRunningModels := True\<rparr>))))"

text \<open>
  \<^verbatim>\<open>imageFile\<close> and \<^verbatim>\<open>imageBase64\<close>: a character vector replaces the images, a cell
  array of character vectors appends to them; the conflict between the two parameters
  is checked after the images have been loaded.
\<close>

fun image_files :: "library \<Rightarrow> host \<Rightarrow> cell \<Rightarrow> nat list \<Rightarrow> pstate \<Rightarrow> pstate step" where
  "image_files L H files [] st = Continue st"
| "image_files L H files (f # fs) st =
     with_elem st (elem files f) (\<lambda>v. with_string H st v (\<lambda>s.
       from_file L st s (\<lambda>im st1.
         image_files L H files fs (st1\<lparr>images := images st1 @ [im]\<rparr>))))"

fun image_strings :: "host \<Rightarrow> cell \<Rightarrow> nat list \<Rightarrow> pstate \<Rightarrow> pstate step" where
  "image_strings H files [] st = Continue st"
| "image_strings H files (f # fs) st =
     with_elem st (elem files f) (\<lambda>v. with_string H st v (\<lambda>s.
       image_strings H files fs (st\<lparr>images := images st @ [from_base64_string s]\<rparr>)))"

definition set_has_images :: "pstate \<Rightarrow> pstate step" where
  "set_has_images st =
     (if has_images st then error st ''__ollama__: specify either 'imageFile' or 'imageBase64'.''
      else Continue (st\<lparr>has_images := True\<rparr>))"

definition param_imageFile :: "library \<Rightarrow> host \<Rightarrow> pstate \<Rightarrow> octave_value \<Rightarrow> pstate step" where
  "param_imageFile L H st v =
     (if is_string v
      then with_string H st v (\<lambda>s.
             from_file L st s (\<lambda>im st1. set_has_images (st1\<lparr>images := [im]\<rparr>)))
      else if iscellstr v
      then with_cell st v (\<lambda>files.
             and_then (image_files L H files [0..<numel files] st) set_has_images)
      else error st ''__ollama__: 'imageFile' name must be a character vector or a cell array of character vectors.'')"

definition param_imageBase64 :: "host \<Rightarrow> pstate \<Rightarrow> octave_value \<Rightarrow> pstate step" where
  "param_imageBase64 H st v =
     (if is_string v
      then with_string H st v (\<lambda>s. set_has_images (st\<lparr>images := [from_base64_string s]\<rparr>))
      else if iscellstr v
      then with_cell st v (\<lambda>files.
             and_then (image_strings H files [0..<numel files] st) set_has_images)
      else error st ''__ollama__: 'imageBase64' name must be a character vector or a cell array of character vectors.'')"

text \<open>
  \<^verbatim>\<open>options\<close>: twenty fields are looked for, in this order; a field that is present is
  converted by the host to the kind of number the field takes.
\<close>

datatype opt_kind = Int_field | Double_field | Bool_field

definition option_fields :: "(string \<times> opt_kind) list" where
  "option_fields =
     [(''num_keep'', Int_field), (''seed'', Int_field), (''num_predict'', Int_field),
      (''top_k'', Int_field), (''top_p'', Double_field), (''min_p'', Double_field),
      (''typical_p'', Double_field), (''repeat_last_n'', Int_field),
      (''temperature'', Double_field), (''repeat_penalty'', Double_field),
      (''presence_penalty'', Double_field), (''frequency_penalty'', Double_field),
      (''penalize_newline'', Bool_field), (''numa'', Bool_field), (''num_ctx'', Int_field),
      (''num_batch'', Int_field), (''num_gpu'', Int_field), (''main_gpu'', Int_field),
      (''use_mmap'', Bool_field), (''num_thread'', Int_field)]"

fun convert_field :: "host \<Rightarrow> opt_kind \<Rightarrow> octave_value \<Rightarrow> string + opt_value" where
  "convert_field H Int_field v = map_sum id Opt_int (int_value H v)"
| "convert_field H Double_field v = map_sum id Opt_double (double_value H v)"
| "convert_field H Bool_field v = map_sum id Opt_bool (bool_value H v)"

fun set_options :: "host \<Rightarrow> (string \<times> octave_value) list \<Rightarrow> (string \<times> opt_kind) list \<Rightarrow> pstate
                      \<Rightarrow> pstate step" where
  "set_options H opt [] st = Continue st"
| "set_options H opt ((k, kind) # rest) st =
     (if isfield opt k
      then (case convert_field H kind (contents opt k) of
              Inl e \<Rightarrow> error st e
            | Inr x \<Rightarrow> set_options H opt rest (st\<lparr>options := AList.update k x (options st)\<rparr>))
      else set_options H opt rest st)"

definition param_options :: "host \<Rightarrow> pstate \<Rightarrow> octave_value \<Rightarrow> pstate step" where
  "param_options H st v =
     (if \<not> isstruct v then error st ''__ollama__: 'options' value must be a scalar structure.''
      else case scalar_map_value v of
             Inl e \<Rightarrow> error st e
           | Inr opt \<Rightarrow> set_options H opt option_fields st)"

text \<open>
  \<^verbatim>\<open>message\<close>: an N-by-3 cell array; each row holds the user's prompt, a 2-column cell
  array of images and the previous response (a character vector, or a cell array whose
  element of index 1 is used). None of the three \<^verbatim>\<open>string_value\<close> calls on the cells is
  preceded by a type check.
\<close>

fun message_images :: "library \<Rightarrow> host \<Rightarrow> cell \<Rightarrow> nat list \<Rightarrow> ollama_image list \<Rightarrow> bool \<Rightarrow> pstate
                         \<Rightarrow> (ollama_image list \<times> bool \<times> pstate) step" where
  "message_images L H img [] msg_images has_msg_images st =
     Continue (msg_images, has_msg_images, st)"
| "message_images L H img (irows # rest) msg_images has_msg_images st =
     with_elem st (elem2 img irows 0) (\<lambda>kind. with_string H st kind (\<lambda>k.
       if k = ''imageFile''
       then with_elem st (elem2 img irows 1) (\<lambda>f. with_string H st f (\<lambda>path.
              from_file L st path (\<lambda>im st1.
                message_images L H img rest (msg_images @ [im]) True st1)))
       else if k = ''imageBase64''
       then with_elem st (elem2 img irows 1) (\<lambda>f. with_string H st f (\<lambda>b.
              message_images L H img rest (msg_images @ [from_base64_string b]) True st))
       else message_images L H img rest msg_images has_msg_images st))"

definition previous_response :: "host \<Rightarrow> pstate \<Rightarrow> octave_value \<Rightarrow> (string \<Rightarrow> 'a step) \<Rightarrow> 'a step" where
  "previous_response H st v k =
     (if is_string v then with_string H st v k
      else with_cell st v (\<lambda>response.
             with_elem st (elem response 1) (\<lambda>r. with_string H st r k)))"

fun message_rows :: "library \<Rightarrow> host \<Rightarrow> cell \<Rightarrow> nat list \<Rightarrow> pstate \<Rightarrow> pstate step" where
  "message_rows L H msg [] st = Continue st"
| "message_rows L H msg (mrows # rest) st =
     with_elem st (elem2 msg mrows 0) (\<lambda>m0. with_string H st m0 (\<lambda>user.
     with_elem st (elem2 msg mrows 1) (\<lambda>m1.
       if \<not> iscell m1 \<or> columns m1 \<noteq> 2
       then error st ''__ollama__: second column in 'messages' name must be a 2-column cell array.''
       else with_cell st m1 (\<lambda>img.
         and_then (message_images L H img [0..<cell_rows img] [] False st)
           (\<lambda>(msg_images, has_msg_images, st1).
              let st2 = st1\<lparr>messages := messages st1 @
                          [if has_msg_images then Message ''user'' user msg_images
                           else Message ''user'' user []]\<rparr>
              in with_elem st2 (elem2 msg mrows 2) (\<lambda>m2.
                   previous_response H st2 m2 (\<lambda>assistant.
                     message_rows L H msg rest
                       (if length assistant > 0
                        then st2\<lparr>messages := messages st2 @ [Message ''assistant'' assistant []]\<rparr>
                        else st2))))))))"

definition param_message :: "library \<Rightarrow> host \<Rightarrow> pstate \<Rightarrow> octave_value \<Rightarrow> pstate step" where
  "param_message L H st v =
     (if has_prompt st then error st ''__ollama__: specify either 'prompt' or 'message'.''
      else let st1 = st\<lparr>has_messages := True\<rparr> in
        if \<not> iscell v then error st1 ''__ollama__: 'messages' name must be a cell array.''
        else with_cell st1 v (\<lambda>msg.
          if cell_columns msg \<noteq> 3
          then error st1 ''__ollama__: 'messages' cell array must have 3 columns.''
          else message_rows L H msg [0..<cell_rows msg] st1))"

definition param_systemMessage :: "host \<Rightarrow> pstate \<Rightarrow> octave_value \<Rightarrow> pstate step" where
  "param_systemMessage H st v =
     (if \<not> is_string v then error st ''__ollama__: 'systemMessage' must be a character vector.''
      else with_string H st v (\<lambda>s.
        Continue (st\<lparr>sysmsg := (if s = ''default'' then [] else s)\<rparr>)))"

definition param_think :: "host \<Rightarrow> pstate \<Rightarrow> octave_value \<Rightarrow> pstate step" where
  "param_think H st v =
     (if \<not> is_string v then error st ''__ollama__: 'think' value must be a character vector.''
      else with_string H st v (\<lambda>s. Continue (st\<lparr>think := s\<rparr>)))"

section \<open>Parsing the Name-Value pairs\<close>

definition dispatch_param :: "library \<Rightarrow> host \<Rightarrow> pstate \<Rightarrow> string \<Rightarrow> octave_value \<Rightarrow> pstate step" where
  "dispatch_param L H st n v =
     (if n = ''model'' then param_model H st v
      else if n = ''prompt'' then param_prompt H st v
      else if n = ''serverURL'' then param_serverURL L H st v
      else if n = ''readTimeout'' then param_readTimeout H st v
      else if n = ''writeTimeout'' then param_writeTimeout H st v
      else if n = ''Query'' then param_Query H st v
      else if n = ''loadModel'' then param_loadModel H st v
      else if n = ''pullModel'' then param_pullModel H st v
      else if n = ''copyModel'' then param_copyModel H st v
      else if n = ''deleteModel'' then param_deleteModel H st v
      else if n = ''unloadModel'' then param_unloadModel H st v
      else if n = ''modelInfo'' then param_modelInfo H st v
      else if n = ''listModels'' then param_listModels H st v
      else if n = ''listRunningModels'' then param_listRunningModels H st v
      else if n = ''imageFile'' then param_imageFile L H st v
      else if n = ''imageBase64'' then param_imageBase64 H st v
      else if n = ''options'' then param_options H st v
      else if n = ''message'' then param_message L H st v
      else if n = ''systemMessage'' then param_systemMessage H st v
      else if n = ''think'' then param_think H st v
      else Continue st)"

definition parse_pair :: "library \<Rightarrow> host \<Rightarrow> pstate \<Rightarrow> octave_value \<Rightarrow> octave_value \<Rightarrow> pstate step" where
  "parse_pair L H st name v =
     (if isempty name \<or> isempty v then error st ''__ollama__: input arguments cannot be empty.''
      else if \<not> is_string name
      then error st ''__ollama__: parameter name must be a character vector.''
      else with_string H st name (\<lambda>n. dispatch_param L H st n v))"

text \<open>
  The loop \<^verbatim>\<open>for (p = 0; p < args.length (); p += 2)\<close>. The length is even when the
  loop is entered; a last name without a value would be a read outside \<^verbatim>\<open>args\<close>.
\<close>

fun parse_args :: "library \<Rightarrow> host \<Rightarrow> pstate \<Rightarrow> octave_value list \<Rightarrow> pstate step" where
  "parse_args L H st [] = Continue st"
| "parse_args L H st [name] = Stop Out_of_bounds (calls st)"
| "parse_args L H st (name # v # rest) =
     and_then (parse_pair L H st name v) (\<lambda>st1. parse_args L H st1 rest)"

section \<open>Talking to the server\<close>

text \<open>
  A \<^verbatim>\<open>try\<close> block either completes with a new state or throws at some state; the
  handler \<^verbatim>\<open>catch (ollama::exception& err)\<close> stores \<^verbatim>\<open>err.what ()\<close> and the error flag.
\<close>

fun what :: "exn \<Rightarrow> string" where
  "what (Ollama_exception m) = m"
| "what (Other_exception m) = m"

definition catch_exception :: "(exn \<times> pstate) + pstate \<Rightarrow> outcome \<times> call list" where
  "catch_exception r =
     (case r of
        Inr st \<Rightarrow> return_retval st
      | Inl (Ollama_exception m, st) \<Rightarrow>
          return_retval (st\<lparr>retval0 := Some (OString (what (Ollama_exception m))),
                            retval1 := Some (obool True)\<rparr>)
      | Inl (Other_exception m, st) \<Rightarrow> (Uncaught (Other_exception m), calls st))"

definition uncaught :: "(exn \<times> pstate) + pstate \<Rightarrow> outcome \<times> call list" where
  "uncaught r =
     (case r of
        Inr st \<Rightarrow> return_retval st
      | Inl (x, st) \<Rightarrow> (Uncaught x, calls st))"

definition invoke :: "pstate \<Rightarrow> call \<Rightarrow> exn + 'a \<Rightarrow> ('a \<Rightarrow> pstate \<Rightarrow> (exn \<times> pstate) + pstate)
                        \<Rightarrow> (exn \<times> pstate) + pstate" where
  "invoke st c answer k =
     (case answer of
        Inl x \<Rightarrow> Inl (x, called st c)
      | Inr y \<Rightarrow> k y (called st c))"

definition op_version :: "library \<Rightarrow> pstate \<Rightarrow> outcome \<times> call list" where
  "op_version L st =
     uncaught (invoke st Get_version (get_version L (calls st)) (\<lambda>version st1.
       Inr (st1\<lparr>retval0 := Some (OString version), retval1 := Some (obool False)\<rparr>)))"

definition op_loadModel :: "library \<Rightarrow> pstate \<Rightarrow> outcome \<times> call list" where
  "op_loadModel L st =
     uncaught (invoke st (Load_model (source st)) (load_model L (calls st) (source st))
       (\<lambda>model_loaded st1.
          Inr (st1\<lparr>retval0 := Some (obool model_loaded),
                   retval1 := Some (obool (\<not> model_loaded))\<rparr>)))"

definition op_pullModel :: "library \<Rightarrow> pstate \<Rightarrow> outcome \<times> call list" where
  "op_pullModel L st =
     catch_exception (invoke st (Pull_model (source st)) (pull_model L (calls st) (source st))
       (\<lambda>model_pulled st1.
          Inr (st1\<lparr>retval0 := Some (obool model_pulled), retval1 := Some (obool False)\<rparr>)))"

definition op_copyModel :: "library \<Rightarrow> pstate \<Rightarrow> outcome \<times> call list" where
  "op_copyModel L st =
     catch_exception (invoke st (Copy_model (source st) (target st))
       (copy_model L (calls st) (source st) (target st))
       (\<lambda>model_copied st1.
          Inr (st1\<lparr>retval0 := Some (obool model_copied), retval1 := Some (obool False)\<rparr>)))"

definition op_deleteModel :: "library \<Rightarrow> pstate \<Rightarrow> outcome \<times> call list" where
  "op_deleteModel L st =
     catch_exception (invoke st (Delete_model (source st)) (delete_model L (calls st) (source st))
       (\<lambda>model_deleted st1.
          Inr (st1\<lparr>retval0 := Some (obool model_deleted), retval1 := Some (obool False)\<rparr>)))"

definition op_unloadModel :: "library \<Rightarrow> pstate \<Rightarrow> outcome \<times> call list" where
  "op_unloadModel L st =
     uncaught (invoke st (Unload_model (source st)) (unload_model L (calls st) (source st))
       (\<lambda>model_unloaded st1.
          Inr (st1\<lparr>retval0 := Some (obool model_unloaded),
                   retval1 := Some (obool (\<not> model_unloaded))\<rparr>)))"

text \<open>
  \<^verbatim>\<open>modelInfo\<close>: the list of models is fetched before the \<^verbatim>\<open>try\<close> block; inside it, the
  loop asks for the information at every entry of the list that equals the name.
\<close>

fun model_info_loop :: "library \<Rightarrow> string list \<Rightarrow> pstate \<Rightarrow> (exn \<times> pstate) + pstate" where
  "model_info_loop L [] st = Inr st"
| "model_info_loop L (m # models) st =
     (if m = modelInfoName st
      then invoke st (Show_model_info (modelInfoName st))
             (show_model_info L (calls st) (modelInfoName st))
             (\<lambda>m_info st1. model_info_loop L models
                (st1\<lparr>retval0 := Some (OString (dump m_info)), retval1 := Some (obool False)\<rparr>))
      else model_info_loop L models st)"

definition op_modelInfo :: "library \<Rightarrow> pstate \<Rightarrow> outcome \<times> call list" where
  "op_modelInfo L st =
     (case list_models L (calls st) of
        Inl x \<Rightarrow> (Uncaught x, calls st @ [List_models])
      | Inr models \<Rightarrow> catch_exception (model_info_loop L models (called st List_models)))"

definition cellstr_column :: "string list \<Rightarrow> octave_value" where
  "cellstr_column models = OCell (length models) 1 (map OString models)"

definition op_listModels :: "library \<Rightarrow> pstate \<Rightarrow> outcome \<times> call list" where
  "op_listModels L st =
     catch_exception
       (if return_cellstr st
        then invoke st List_models (list_models L (calls st)) (\<lambda>models st1.
               Inr (st1\<lparr>retval0 := Some (cellstr_column models), retval1 := Some (obool False)\<rparr>))
        else invoke st List_model_json (list_model_json L (calls st)) (\<lambda>json_models st1.
               Inr (st1\<lparr>retval0 := Some (OString (dump json_models)),
                        retval1 := Some (obool False)\<rparr>)))"

definition op_listRunningModels :: "library \<Rightarrow> pstate \<Rightarrow> outcome \<times> call list" where
  "op_listRunningModels L st =
     catch_exception
       (if return_cellstr st
        then invoke st List_running_models (list_running_models L (calls st)) (\<lambda>models st1.
               Inr (st1\<lparr>retval0 := Some (cellstr_column models), retval1 := Some (obool False)\<rparr>))
        else invoke st Running_model_json (running_model_json L (calls st)) (\<lambda>json_models st1.
               Inr (st1\<lparr>retval0 := Some (OString (dump json_models)),
                        retval1 := Some (obool False)\<rparr>)))"

definition op_generate :: "library \<Rightarrow> pstate \<Rightarrow> outcome \<times> call list" where
  "op_generate L st =
     catch_exception
       (invoke st (Generate (model st) (prompt st) (think st) (sysmsg st) (options st) (images st))
          (generate L (calls st) (model st) (prompt st) (think st) (sysmsg st) (options st)
             (images st))
          (\<lambda>response st1.
             Inr (st1\<lparr>retval0 := Some (OString (as_json_string response)),
                      retval1 := Some (obool False)\<rparr>)))"

definition op_chat :: "library \<Rightarrow> pstate \<Rightarrow> outcome \<times> call list" where
  "op_chat L st =
     catch_exception
       (invoke st (Chat (model st) (messages st) (think st) (sysmsg st) (options st))
          (chat L (calls st) (model st) (messages st) (think st) (sysmsg st) (options st))
          (\<lambda>response st1.
             Inr (st1\<lparr>retval0 := Some (OString (as_json_string response)),
                      retval1 := Some (obool False)\<rparr>)))"

definition inference :: "library \<Rightarrow> pstate \<Rightarrow> outcome \<times> call list" where
  "inference L st =
     (if model st = [] then (Error ''__ollama: 'model' parameter is required.'', calls st)
      else if \<not> has_prompt st \<and> \<not> has_messages st
      then (Error ''__ollama: either 'prompt' or 'messages' parameter is required.'', calls st)
      else if has_prompt st then op_generate L st
      else op_chat L st)"

definition run_operation :: "library \<Rightarrow> pstate \<Rightarrow> outcome \<times> call list" where
  "run_operation L st =
     (if \<not> running st
      then return_retval (st\<lparr>retval0 := Some (obool False), retval1 := Some (obool True)\<rparr>)
      else if query_status st
      then return_retval (st\<lparr>retval0 := Some (obool True), retval1 := Some (obool False)\<rparr>)
      else if query_version st then op_version L st
      else if do_loadModel st then op_loadModel L st
      else if do_pullModel st then op_pullModel L st
      else if do_copyModel st then op_copyModel L st
      else if do_deleteModel st then op_deleteModel L st
      else if do_unloadModel st then op_unloadModel L st
      else if do_modelInfo st then op_modelInfo L st
      else if do_listModels st then op_listModels L st
      else if do_listRunningModels st then op_listRunningModels L st
      else inference L st)"

section \<open>The binding\<close>

definition initial_state :: "bool \<Rightarrow> pstate" where
  "initial_state r =
     \<lparr>calls = [Is_running], retval0 = None, retval1 = Some (obool (\<not> r)), running = r,
      model = [], prompt = [], has_prompt = False, sysmsg = [], think = ''false'',
      images = [], has_images = False, options = [], has_options = False,
      messages = [], has_messages = False, query_status = False, query_version = False,
      source = [], target = [], do_loadModel = False, do_pullModel = False,
      do_copyModel = False, do_deleteModel = False, do_unloadModel = False,
      modelInfoName = [], do_modelInfo = False, do_listModels = False,
      do_listRunningModels = False, return_cellstr = False\<rparr>"

definition ollama :: "library \<Rightarrow> host \<Rightarrow> int \<Rightarrow> octave_value list \<Rightarrow> outcome \<times> call list" where
  "ollama L H nargout args =
     (if nargout \<noteq> 2 then (Error ''__ollama__: two output arguments are required.'', [])
      else let st = initial_state (is_running L []) in
        if length args mod 2 \<noteq> 0
        then (Error ''__ollama__: input arguments must be in Name-Value pairs.'', calls st)
        else case parse_args L H st args of
               Stop out cs \<Rightarrow> (out, cs)
             | Continue st1 \<Rightarrow> run_operation L st1)"

section \<open>The figure snapshot helper\<close>

text \<open>
  \<^verbatim>\<open>fig2base64\<close> (file \<^verbatim>\<open>src/fig2base64.cc\<close>) takes the handle of a figure, asks the
  graphics toolkit for the pixels of the figure (a \<^verbatim>\<open>uint8NDArray\<close>, rows by columns by
  pages, stored in column-major order), copies the first three pages of every pixel
  into a buffer, row by row, and hands the buffer to \<^verbatim>\<open>fpng\<close> and the result to
  \<^verbatim>\<open>Base64\<close>. The graphics manager, \<^verbatim>\<open>fpng\<close> and \<^verbatim>\<open>Base64\<close> are parameters. The
  buffer is allocated with as many bytes as the snapshot has elements; the model hands
  \<^verbatim>\<open>fpng\<close> the bytes that the loops have written, which are the width times height
  times channels bytes that \<^verbatim>\<open>fpng\<close> reads.
\<close>

record uint8NDArray =
  nd_rows :: nat
  nd_columns :: nat
  nd_pages :: nat
  nd_data :: "8 word list"

definition nd_numel :: "uint8NDArray \<Rightarrow> nat" where
  "nd_numel A = nd_rows A * nd_columns A * nd_pages A"

definition nd_element :: "8 word list \<Rightarrow> nat \<Rightarrow> 8 word" where
  "nd_element ws k = (if k < length ws then ws ! k else 0)"

definition nd_elem :: "uint8NDArray \<Rightarrow> nat \<Rightarrow> nat \<Rightarrow> nat \<Rightarrow> 8 word option" where
  "nd_elem A r c k =
     (let i = r + nd_rows A * (c + nd_columns A * k)
      in if i < nd_numel A then Some (nd_element (nd_data A) i) else None)"

datatype graphics_object = No_object | Object string

fun isa :: "graphics_object \<Rightarrow> string \<Rightarrow> bool" where
  "isa No_object t = False"
| "isa (Object ty) t = (ty = t)"

record graphics =
  get_object :: "real \<Rightarrow> graphics_object"
  get_pixels :: "real \<Rightarrow> uint8NDArray"
  fpng_encode_image_to_memory :: "8 word list \<Rightarrow> nat \<Rightarrow> nat \<Rightarrow> nat \<Rightarrow> 8 word list option"
  base64_encode :: "8 word list \<Rightarrow> string"

datatype fig_outcome = Fig_error string | Fig_out_of_bounds | Fig_returned string

text \<open>
  One store \<^verbatim>\<open>pixels[i++] = data(r, c, k)\<close>: the buffer has \<^verbatim>\<open>bytes\<close> elements, and
  neither the read nor the write is bounds-checked.
\<close>

definition store_pixel :: "uint8NDArray \<Rightarrow> nat \<Rightarrow> nat \<Rightarrow> nat \<Rightarrow> 8 word list \<Rightarrow> 8 word list option" where
  "store_pixel A r c k pixels =
     (case nd_elem A r c k of
        None \<Rightarrow> None
      | Some b \<Rightarrow> if length pixels < nd_numel A then Some (pixels @ [b]) else None)"

fun copy_columns :: "uint8NDArray \<Rightarrow> nat \<Rightarrow> nat list \<Rightarrow> 8 word list \<Rightarrow> 8 word list option" where
  "copy_columns A r [] pixels = Some pixels"
| "copy_columns A r (c # cs) pixels =
     (case store_pixel A r c 0 pixels of None \<Rightarrow> None | Some p0 \<Rightarrow>
      case store_pixel A r c 1 p0 of None \<Rightarrow> None | Some p1 \<Rightarrow>
      case store_pixel A r c 2 p1 of None \<Rightarrow> None | Some p2 \<Rightarrow>
      copy_columns A r cs p2)"

fun copy_rows :: "uint8NDArray \<Rightarrow> nat list \<Rightarrow> 8 word list \<Rightarrow> 8 word list option" where
  "copy_rows A [] pixels = Some pixels"
| "copy_rows A (r # rs) pixels =
     (case copy_columns A r [0..<nd_columns A] pixels of
        None \<Rightarrow> None
      | Some p \<Rightarrow> copy_rows A rs p)"

definition encode_snapshot :: "graphics \<Rightarrow> uint8NDArray \<Rightarrow> fig_outcome" where
  "encode_snapshot G data =
     (let rows = nd_rows data; cols = nd_columns data; ch = 3
      in case copy_rows data [0..<rows] [] of
           None \<Rightarrow> Fig_out_of_bounds
         | Some pixels \<Rightarrow>
             (case fpng_encode_image_to_memory G pixels cols rows ch of
                None \<Rightarrow> Fig_error ''fig2base64: unable to convert image to PNG.''
              | Some buffer \<Rightarrow> Fig_returned (base64_encode G buffer)))"

definition fig2base64 :: "graphics \<Rightarrow> host \<Rightarrow> octave_value list \<Rightarrow> fig_outcome" where
  "fig2base64 G H args =
     (if length args \<noteq> 1 then Fig_error ''fig2base64: invalig number of input arguments.''
      else (case double_value H (args ! 0) of
              Inl e \<Rightarrow> Fig_error ''fig2base64: HFIG is not a handle.''
            | Inr h \<Rightarrow>
                (let go = get_object G h in
                 if go = No_object \<or> \<not> isa go ''figure''
                 then Fig_error ''fig2base64: HFIG is not a figure.''
                 else encode_snapshot G (get_pixels G h))))"

section \<open>A concrete host and a concrete server\<close>

text \<open>
  For evaluating the binding on concrete arguments: a host whose conversions refuse
  every value they are asked to convert, and a library in front of a server that
  answers at every address but \<^verbatim>\<open>http://down\<close>, knows the models \<^verbatim>\<open>llama3\<close> and
  \<^verbatim>\<open>phi\<close>, and loses the connection on the model \<^verbatim>\<open>gone\<close>.
\<close>

definition plain_host :: host where
  "plain_host =
     \<lparr>conv_int = (\<lambda>v. Inl ''wrong type argument''),
      conv_double = (\<lambda>v. Inl ''wrong type argument''),
      conv_bool = (\<lambda>v. Inl ''wrong type argument''),
      conv_string = (\<lambda>v. Inl ''wrong type argument'')\<rparr>"

definition lost :: "string \<Rightarrow> exn + bool" where
  "lost m = (if m = ''gone'' then Inl (Ollama_exception ''No response returned from server'')
             else Inr True)"

definition demo_library :: library where
  "demo_library =
     \<lparr>is_running = (\<lambda>cs. Set_server_url ''http://down'' \<notin> set cs),
      image_from_file = (\<lambda>cs p. Inr (Image p)),
      get_version = (\<lambda>cs. Inr ''0.9.0''),
      load_model = (\<lambda>cs m. lost m),
      pull_model = (\<lambda>cs m. lost m),
      copy_model = (\<lambda>cs m t. lost m),
      delete_model = (\<lambda>cs m. lost m),
      unload_model = (\<lambda>cs m. lost m),
      list_models = (\<lambda>cs. Inr [''llama3'', ''phi'']),
      show_model_info = (\<lambda>cs m. Inr (Json ''{}'')),
      list_model_json = (\<lambda>cs. Inr (Json ''[]'')),
      list_running_models = (\<lambda>cs. Inr [''phi'']),
      running_model_json = (\<lambda>cs. Inr (Json ''[]'')),
      generate = (\<lambda>cs m p t s opts imgs. Inr (Response ''hello'')),
      chat = (\<lambda>cs m ms t s opts. Inr (Response ''hi''))\<rparr>"

section \<open>Vocabulary of the properties\<close>

text \<open>
  The calls that the parsing loop makes on the way (the probe of the server, the
  setters, the reading of an image file) are helper calls; every other call is the
  call of an operation. A call of the binding that stops early has an outcome that is
  not the result of an operation: an error, an exception, a read out of bounds, or the
  return \<open>false\<close> with the error flag for a server that is not running.
\<close>

fun helper_call :: "call \<Rightarrow> bool" where
  "helper_call Is_running = True"
| "helper_call (Set_server_url u) = True"
| "helper_call (Set_read_timeout t) = True"
| "helper_call (Set_write_timeout t) = True"
| "helper_call (Image_from_file p) = True"
| "helper_call c = False"

definition extends :: "call list \<Rightarrow> call list \<Rightarrow> bool" where
  "extends cs0 cs = (\<exists>hs. cs = cs0 @ hs \<and> list_all helper_call hs)"

fun unfinished :: "outcome \<Rightarrow> bool" where
  "unfinished (Returned r0 r1) = False"
| "unfinished out = True"

definition server_not_running :: outcome where
  "server_not_running = Returned (Some (obool False)) (Some (obool True))"

definition early_outcome :: "outcome \<Rightarrow> bool" where
  "early_outcome out = (unfinished out \<or> out = server_not_running)"

definition step_ok :: "call list \<Rightarrow> ('a \<Rightarrow> pstate) \<Rightarrow> 'a step \<Rightarrow> bool" where
  "step_ok cs0 f r =
     (case r of
        Stop out cs \<Rightarrow> early_outcome out \<and> extends cs0 cs
      | Continue x \<Rightarrow> extends cs0 (calls (f x)))"

text \<open>
  The Name-Value pairs of an argument list, and the twenty names that the loop
  compares a name with.
\<close>

fun pairs :: "'a list \<Rightarrow> ('a \<times> 'a) list" where
  "pairs (n # v # rest) = (n, v) # pairs rest"
| "pairs rest = []"

definition parameter_names :: "string list" where
  "parameter_names =
     [''model'', ''prompt'', ''serverURL'', ''readTimeout'', ''writeTimeout'', ''Query'',
      ''loadModel'', ''pullModel'', ''copyModel'', ''deleteModel'', ''unloadModel'',
      ''modelInfo'', ''listModels'', ''listRunningModels'', ''imageFile'', ''imageBase64'',
      ''options'', ''message'', ''systemMessage'', ''think'']"

text \<open>
  What the loop records about the arguments it has accepted: the flags that the code
  after the loop tests. \<open>requested\<close> is the flag a pair is to set, by its name;
  \<open>effect st ms st'\<close> says that from \<open>st\<close> to \<open>st'\<close> exactly the flags \<open>ms\<close> have been
  set in addition, none has been cleared, and the two outputs are untouched.
\<close>

datatype mark =
    M_running | M_status | M_version | M_load | M_pull | M_copy | M_delete | M_unload
  | M_info | M_list | M_listrun | M_prompt | M_messages | M_model

fun holds :: "pstate \<Rightarrow> mark \<Rightarrow> bool" where
  "holds st M_running = running st"
| "holds st M_status = query_status st"
| "holds st M_version = query_version st"
| "holds st M_load = do_loadModel st"
| "holds st M_pull = do_pullModel st"
| "holds st M_copy = do_copyModel st"
| "holds st M_delete = do_deleteModel st"
| "holds st M_unload = do_unloadModel st"
| "holds st M_info = do_modelInfo st"
| "holds st M_list = do_listModels st"
| "holds st M_listrun = do_listRunningModels st"
| "holds st M_prompt = has_prompt st"
| "holds st M_messages = has_messages st"
| "holds st M_model = (model st \<noteq> [])"

definition effect :: "pstate \<Rightarrow> mark set \<Rightarrow> pstate \<Rightarrow> bool" where
  "effect st ms st' =
     ((\<forall>m. holds st' m = (holds st m \<or> m \<in> ms))
      \<and> retval0 st' = retval0 st \<and> retval1 st' = retval1 st)"

definition requested :: "octave_value \<Rightarrow> octave_value \<Rightarrow> mark set" where
  "requested name v =
     (if name = OString ''model'' then {M_model}
      else if name = OString ''prompt'' then {M_prompt}
      else if name = OString ''serverURL'' then {M_running}
      else if name = OString ''Query'' then (if v = OString ''status'' then {M_status} else {M_version})
      else if name = OString ''loadModel'' then {M_load}
      else if name = OString ''pullModel'' then {M_pull}
      else if name = OString ''copyModel'' then {M_copy}
      else if name = OString ''deleteModel'' then {M_delete}
      else if name = OString ''unloadModel'' then {M_unload}
      else if name = OString ''modelInfo'' then {M_info}
      else if name = OString ''listModels'' then {M_list}
      else if name = OString ''listRunningModels'' then {M_listrun}
      else if name = OString ''message'' then {M_messages}
      else {})"

definition requests :: "octave_value list \<Rightarrow> mark set" where
  "requests args = (\<Union>(n, v) \<in> set (pairs args). requested n v)"

text \<open>
  A step that, when it stops, stops with an error of the host. The parameters other
  than \<^verbatim>\<open>serverURL\<close>, \<^verbatim>\<open>imageFile\<close> and \<^verbatim>\<open>message\<close> are of this kind.
\<close>

definition errs_only :: "'a step \<Rightarrow> bool" where
  "errs_only r = (case r of Stop out cs \<Rightarrow> (case out of Error m \<Rightarrow> True | _ \<Rightarrow> False) | Continue x \<Rightarrow> True)"

definition quiet_name :: "octave_value \<Rightarrow> bool" where
  "quiet_name name =
     (name \<noteq> OString ''serverURL'' \<and> name \<noteq> OString ''imageFile'' \<and> name \<noteq> OString ''message'')"

definition quiet :: "octave_value list \<Rightarrow> bool" where
  "quiet args = list_all (\<lambda>(n, v). quiet_name n) (pairs args)"

definition no_result :: "outcome \<times> call list \<Rightarrow> bool" where
  "no_result r = (early_outcome (fst r) \<and> list_all helper_call (snd r))"

definition is_error :: "outcome \<times> call list \<Rightarrow> bool" where
  "is_error r = (case fst r of Error m \<Rightarrow> True | _ \<Rightarrow> False)"


text \<open>
  The table of types, in the words of the specification: which values a parameter
  accepts.
\<close>

definition character_vector_parameters :: "string list" where
  "character_vector_parameters =
     [''model'', ''prompt'', ''serverURL'', ''Query'', ''loadModel'', ''pullModel'',
      ''deleteModel'', ''unloadModel'', ''modelInfo'', ''systemMessage'', ''think'']"

definition is_scalar_struct :: "octave_value \<Rightarrow> bool" where
  "is_scalar_struct v = (case v of OStruct fs \<Rightarrow> True | _ \<Rightarrow> False)"

definition required_type :: "string \<Rightarrow> octave_value \<Rightarrow> bool" where
  "required_type n v =
     (if n \<in> set character_vector_parameters then is_string v
      else if n = ''readTimeout'' \<or> n = ''writeTimeout'' then is_scalar_type v \<and> is_double_type v
      else if n = ''copyModel''
      then iscellstr v \<and> (case cell_value v of Inr C \<Rightarrow> numel C = 2 | Inl e \<Rightarrow> False)
      else if n = ''options'' then is_scalar_struct v
      else if n = ''message'' then iscell v \<and> columns v = 3
      else True)"

definition typed_parameters :: "string list" where
  "typed_parameters =
     character_vector_parameters @
     [''readTimeout'', ''writeTimeout'', ''copyModel'', ''options'', ''message'']"

text \<open>
  The operations, in the order of priority of the specification: \<open>chosen\<close> is the first
  operation of \<open>priority\<close> that the flags ask for, \<open>perform\<close> the code of one operation.
\<close>

datatype operation =
    Not_running | Status | Version | Load | Pull | Copy | Delete | Unload | Model_info
  | List_models_op | List_running_op | Inference

fun wanted :: "pstate \<Rightarrow> operation \<Rightarrow> bool" where
  "wanted st Not_running = (\<not> running st)"
| "wanted st Status = query_status st"
| "wanted st Version = query_version st"
| "wanted st Load = do_loadModel st"
| "wanted st Pull = do_pullModel st"
| "wanted st Copy = do_copyModel st"
| "wanted st Delete = do_deleteModel st"
| "wanted st Unload = do_unloadModel st"
| "wanted st Model_info = do_modelInfo st"
| "wanted st List_models_op = do_listModels st"
| "wanted st List_running_op = do_listRunningModels st"
| "wanted st Inference = True"

definition priority :: "operation list" where
  "priority =
     [Not_running, Status, Version, Load, Pull, Copy, Delete, Unload, Model_info,
      List_models_op, List_running_op, Inference]"

definition chosen :: "pstate \<Rightarrow> operation" where
  "chosen st = (case find (wanted st) priority of Some op \<Rightarrow> op | None \<Rightarrow> Inference)"

fun perform :: "library \<Rightarrow> pstate \<Rightarrow> operation \<Rightarrow> outcome \<times> call list" where
  "perform L st Not_running = (Returned (Some (obool False)) (Some (obool True)), calls st)"
| "perform L st Status = (Returned (Some (obool True)) (Some (obool False)), calls st)"
| "perform L st Version = op_version L st"
| "perform L st Load = op_loadModel L st"
| "perform L st Pull = op_pullModel L st"
| "perform L st Copy = op_copyModel L st"
| "perform L st Delete = op_deleteModel L st"
| "perform L st Unload = op_unloadModel L st"
| "perform L st Model_info = op_modelInfo L st"
| "perform L st List_models_op = op_listModels L st"
| "perform L st List_running_op = op_listRunningModels L st"
| "perform L st Inference = inference L st"

text \<open>The call into the library that belongs to an operation, for those that have one.\<close>

fun operation_call :: "pstate \<Rightarrow> operation \<Rightarrow> call option" where
  "operation_call st Version = Some Get_version"
| "operation_call st Load = Some (Load_model (source st))"
| "operation_call st Pull = Some (Pull_model (source st))"
| "operation_call st Copy = Some (Copy_model (source st) (target st))"
| "operation_call st Delete = Some (Delete_model (source st))"
| "operation_call st Unload = Some (Unload_model (source st))"
| "operation_call st List_models_op =
     Some (if return_cellstr st then List_models else List_model_json)"
| "operation_call st List_running_op =
     Some (if return_cellstr st then List_running_models else Running_model_json)"
| "operation_call st Inference =
     Some (if has_prompt st
           then Generate (model st) (prompt st) (think st) (sysmsg st) (options st) (images st)
           else Chat (model st) (messages st) (think st) (sysmsg st) (options st))"
| "operation_call st op = None"

definition operation_calls :: "outcome \<times> call list \<Rightarrow> call list" where
  "operation_calls r = filter (\<lambda>c. \<not> helper_call c) (snd r)"

text \<open>The variables when the loop is entered.\<close>

definition start :: "library \<Rightarrow> pstate" where
  "start L = initial_state (is_running L [])"


text \<open>
  An argument list supplies a parameter when one of its pairs has that name.
  \<open>trace_of\<close> reads the calls made by a \<^verbatim>\<open>try\<close> block, whether it completed or threw.
\<close>

definition supplies :: "octave_value list \<Rightarrow> string \<Rightarrow> bool" where
  "supplies args n = (OString n \<in> set (map fst (pairs args)))"

fun trace_of :: "(exn \<times> pstate) + pstate \<Rightarrow> call list" where
  "trace_of (Inr st) = calls st"
| "trace_of (Inl (x, st)) = calls st"


text \<open>
  For the figure helper: the element \<^verbatim>\<open>data(r, c, k)\<close> of the snapshot, and a toolkit
  with one figure, of handle 1, whose snapshot has one row, two columns and three
  pages; its \<^verbatim>\<open>fpng\<close> accepts a buffer of the announced size and its \<^verbatim>\<open>Base64\<close> writes
  one letter for each byte.
\<close>

definition nd_at :: "uint8NDArray \<Rightarrow> nat \<Rightarrow> nat \<Rightarrow> nat \<Rightarrow> 8 word" where
  "nd_at A r c k = nd_element (nd_data A) (r + nd_rows A * (c + nd_columns A * k))"

definition demo_graphics :: graphics where
  "demo_graphics =
     \<lparr>get_object = (\<lambda>h. if h = 1 then Object ''figure'' else No_object),
      get_pixels = (\<lambda>h. \<lparr>nd_rows = 1, nd_columns = 2, nd_pages = 3,
                           nd_data = [10, 20, 11, 21, 12, 22]\<rparr>),
      fpng_encode_image_to_memory = (\<lambda>pixels w h ch. if length pixels = w * h * ch then Some pixels else None),
      base64_encode = (\<lambda>buffer. map (\<lambda>b. if b < 20 then CHR ''a'' else CHR ''b'') buffer)\<rparr>"


text \<open>
  The buffer the loops are to build: for every row, for every column, the three
  channels of the pixel.
\<close>

definition rgb :: "uint8NDArray \<Rightarrow> nat \<Rightarrow> nat \<Rightarrow> 8 word list" where
  "rgb A r c = [nd_at A r c 0, nd_at A r c 1, nd_at A r c 2]"

definition pixel_row :: "uint8NDArray \<Rightarrow> nat \<Rightarrow> 8 word list" where
  "pixel_row A r = concat (map (rgb A r) [0..<nd_columns A])"

definition row_major :: "uint8NDArray \<Rightarrow> 8 word list" where
  "row_major A = concat (map (pixel_row A) [0..<nd_rows A])"

section \<open>Lemmas about the parsing loop\<close>

lemma is_string_iff: "is_string v \<longleftrightarrow> (\<exists>s. v = OString s)"
  by (cases v) auto

lemma with_string_OString [simp]: "with_string H st (OString s) k = k s"
  by (simp add: with_string_def)

lemma and_then_simps [simp]:
  "and_then (Continue x) k = k x"
  "and_then (Stop out cs) k = Stop out cs"
  by (simp_all add: and_then_def)

lemma with_elem_simps [simp]:
  "with_elem st (Some v) k = k v"
  "with_elem st None k = Stop Out_of_bounds (calls st)"
  by (simp_all add: with_elem_def)

lemma error_not_Continue [simp]: "error st m \<noteq> Continue st'"
  by (simp add: error_def)

subsection \<open>Every step only adds helper calls, and stops early only without a result\<close>

lemma extends_refl [simp]: "extends cs cs"
  unfolding extends_def by (rule exI [of _ "[]"]) simp

lemma extends_trans: "extends a b \<Longrightarrow> extends b c \<Longrightarrow> extends a c"
  unfolding extends_def by (metis append.assoc list_all_append)

lemma extends_snoc: "extends a b \<Longrightarrow> helper_call c \<Longrightarrow> extends a (b @ [c])"
  unfolding extends_def by (metis append.assoc list.pred_inject(1) list.pred_inject(2) list_all_append)

lemma extends_append [simp]: "list_all helper_call hs \<Longrightarrow> extends cs (cs @ hs)"
  unfolding extends_def by blast

lemma step_ok_Continue [simp]: "step_ok cs0 f (Continue x) = extends cs0 (calls (f x))"
  by (simp add: step_ok_def)

lemma step_ok_Stop [simp]: "step_ok cs0 f (Stop out cs) = (early_outcome out \<and> extends cs0 cs)"
  by (simp add: step_ok_def)

lemma step_ok_error: "extends cs0 (calls st) \<Longrightarrow> step_ok cs0 f (error st m)"
  by (simp add: error_def early_outcome_def)

lemma step_ok_with_string:
  "extends cs0 (calls st) \<Longrightarrow> (\<And>s. step_ok cs0 f (k s)) \<Longrightarrow> step_ok cs0 f (with_string H st v k)"
  by (simp add: with_string_def step_ok_error split: sum.splits)

lemma step_ok_with_elem:
  "extends cs0 (calls st) \<Longrightarrow> (\<And>v. step_ok cs0 f (k v)) \<Longrightarrow> step_ok cs0 f (with_elem st x k)"
  by (cases x) (simp_all add: early_outcome_def)

lemma step_ok_with_cell:
  "extends cs0 (calls st) \<Longrightarrow> (\<And>C. step_ok cs0 f (k C)) \<Longrightarrow> step_ok cs0 f (with_cell st v k)"
  by (simp add: with_cell_def step_ok_error split: sum.splits)

lemma step_ok_and_then:
  "step_ok cs0 g r \<Longrightarrow> (\<And>x. extends cs0 (calls (g x)) \<Longrightarrow> step_ok cs0 f (k x)) \<Longrightarrow> step_ok cs0 f (and_then r k)"
  by (cases r) simp_all

lemma step_ok_from_file:
  assumes "extends cs0 (calls st)"
    and "\<And>im st1. extends cs0 (calls st1) \<Longrightarrow> step_ok cs0 f (k im st1)"
  shows "step_ok cs0 f (from_file L st p k)"
proof -
  have e: "extends cs0 (calls st @ [Image_from_file p])"
    using assms(1) by (simp add: extends_snoc)
  show ?thesis
    using e assms(2) [of "called st (Image_from_file p)"]
    by (simp add: from_file_def called_def early_outcome_def split: sum.splits)
qed

lemmas step_ok_intros =
  step_ok_error step_ok_with_string step_ok_with_elem step_ok_with_cell step_ok_from_file

lemma param_model_ok: "step_ok (calls st) (\<lambda>x. x) (param_model H st v)"
  unfolding param_model_def by (auto intro!: step_ok_intros)

lemma param_prompt_ok: "step_ok (calls st) (\<lambda>x. x) (param_prompt H st v)"
  unfolding param_prompt_def Let_def by (auto intro!: step_ok_intros)

lemma param_serverURL_ok: "step_ok (calls st) (\<lambda>x. x) (param_serverURL L H st v)"
  unfolding param_serverURL_def Let_def
  by (auto intro!: step_ok_intros simp: called_def early_outcome_def server_not_running_def extends_snoc)

lemma param_readTimeout_ok: "step_ok (calls st) (\<lambda>x. x) (param_readTimeout H st v)"
  unfolding param_readTimeout_def
  by (auto intro!: step_ok_intros simp: called_def extends_snoc split: sum.splits)

lemma param_writeTimeout_ok: "step_ok (calls st) (\<lambda>x. x) (param_writeTimeout H st v)"
  unfolding param_writeTimeout_def
  by (auto intro!: step_ok_intros simp: called_def extends_snoc split: sum.splits)

lemma param_Query_ok: "step_ok (calls st) (\<lambda>x. x) (param_Query H st v)"
  unfolding param_Query_def by (auto intro!: step_ok_intros)

lemma param_loadModel_ok: "step_ok (calls st) (\<lambda>x. x) (param_loadModel H st v)"
  unfolding param_loadModel_def by (auto intro!: step_ok_intros)

lemma param_pullModel_ok: "step_ok (calls st) (\<lambda>x. x) (param_pullModel H st v)"
  unfolding param_pullModel_def by (auto intro!: step_ok_intros)

lemma param_copyModel_ok: "step_ok (calls st) (\<lambda>x. x) (param_copyModel H st v)"
  unfolding param_copyModel_def by (auto intro!: step_ok_intros)

lemma param_deleteModel_ok: "step_ok (calls st) (\<lambda>x. x) (param_deleteModel H st v)"
  unfolding param_deleteModel_def by (auto intro!: step_ok_intros)

lemma param_unloadModel_ok: "step_ok (calls st) (\<lambda>x. x) (param_unloadModel H st v)"
  unfolding param_unloadModel_def by (auto intro!: step_ok_intros)

lemma param_modelInfo_ok: "step_ok (calls st) (\<lambda>x. x) (param_modelInfo H st v)"
  unfolding param_modelInfo_def by (auto intro!: step_ok_intros)

lemma param_listModels_ok: "step_ok (calls st) (\<lambda>x. x) (param_listModels H st v)"
  unfolding param_listModels_def
  by (auto intro!: step_ok_intros step_ok_and_then [where g = "\<lambda>x. x"])

lemma param_listRunningModels_ok: "step_ok (calls st) (\<lambda>x. x) (param_listRunningModels H st v)"
  unfolding param_listRunningModels_def
  by (auto intro!: step_ok_intros step_ok_and_then [where g = "\<lambda>x. x"])

lemma set_has_images_ok: "extends cs0 (calls st) \<Longrightarrow> step_ok cs0 (\<lambda>x. x) (set_has_images st)"
  unfolding set_has_images_def by (auto intro!: step_ok_intros)

lemma image_files_ok:
  "extends cs0 (calls st) \<Longrightarrow> step_ok cs0 (\<lambda>x. x) (image_files L H files ks st)"
proof (induction ks arbitrary: st)
  case Nil
  then show ?case by simp
next
  case (Cons k ks)
  show ?case
    unfolding image_files.simps
    by (intro step_ok_intros Cons.prems Cons.IH) simp
qed

lemma image_strings_ok:
  "extends cs0 (calls st) \<Longrightarrow> step_ok cs0 (\<lambda>x. x) (image_strings H files ks st)"
proof (induction ks arbitrary: st)
  case Nil
  then show ?case by simp
next
  case (Cons k ks)
  show ?case
    unfolding image_strings.simps
    by (intro step_ok_intros Cons.prems Cons.IH) (simp add: Cons.prems)
qed

lemma param_imageFile_ok: "step_ok (calls st) (\<lambda>x. x) (param_imageFile L H st v)"
  unfolding param_imageFile_def
  by (auto intro!: step_ok_intros step_ok_and_then [where g = "\<lambda>x. x"] image_files_ok set_has_images_ok)

lemma param_imageBase64_ok: "step_ok (calls st) (\<lambda>x. x) (param_imageBase64 H st v)"
  unfolding param_imageBase64_def
  by (auto intro!: step_ok_intros step_ok_and_then [where g = "\<lambda>x. x"] image_strings_ok set_has_images_ok)

lemma set_options_ok:
  "extends cs0 (calls st) \<Longrightarrow> step_ok cs0 (\<lambda>x. x) (set_options H opt flds st)"
proof (induction flds arbitrary: st)
  case Nil
  then show ?case by simp
next
  case (Cons kf flds)
  obtain k kind where kf: "kf = (k, kind)" by (cases kf)
  show ?case
    unfolding kf set_options.simps
    using Cons.prems
    by (auto intro!: step_ok_intros Cons.IH split: sum.splits)
qed

lemma param_options_ok: "step_ok (calls st) (\<lambda>x. x) (param_options H st v)"
  unfolding param_options_def
  by (auto intro!: step_ok_intros set_options_ok split: sum.splits)


lemma message_images_ok:
  "extends cs0 (calls st) \<Longrightarrow>
   step_ok cs0 (\<lambda>(a, b, st1). st1) (message_images L H img ks msg_images has_msg_images st)"
proof (induction ks arbitrary: st msg_images has_msg_images)
  case Nil
  then show ?case by simp
next
  case (Cons k ks)
  show ?case
    unfolding message_images.simps
    by (intro step_ok_intros Cons.prems) (auto intro!: step_ok_intros Cons.prems Cons.IH)
qed

lemma previous_response_ok:
  "extends cs0 (calls st) \<Longrightarrow> (\<And>s. step_ok cs0 f (k s)) \<Longrightarrow>
   step_ok cs0 f (previous_response H st v k)"
  unfolding previous_response_def by (auto intro!: step_ok_intros)

lemma message_rows_ok:
  "extends cs0 (calls st) \<Longrightarrow> step_ok cs0 (\<lambda>x. x) (message_rows L H msg ks st)"
proof (induction ks arbitrary: st)
  case Nil
  then show ?case by simp
next
  case (Cons k ks)
  show ?case
    unfolding message_rows.simps Let_def
    apply (intro step_ok_intros Cons.prems)
    apply (auto intro!: step_ok_intros Cons.prems
        step_ok_and_then [where g = "\<lambda>(a, b, st1). st1"] message_images_ok
        previous_response_ok Cons.IH)
    done
qed

lemma param_message_ok: "step_ok (calls st) (\<lambda>x. x) (param_message L H st v)"
  unfolding param_message_def Let_def
  by (auto intro!: step_ok_intros message_rows_ok)

lemma param_systemMessage_ok: "step_ok (calls st) (\<lambda>x. x) (param_systemMessage H st v)"
  unfolding param_systemMessage_def by (auto intro!: step_ok_intros)

lemma param_think_ok: "step_ok (calls st) (\<lambda>x. x) (param_think H st v)"
  unfolding param_think_def by (auto intro!: step_ok_intros)

lemmas param_ok =
  param_model_ok param_prompt_ok param_serverURL_ok param_readTimeout_ok param_writeTimeout_ok
  param_Query_ok param_loadModel_ok param_pullModel_ok param_copyModel_ok param_deleteModel_ok
  param_unloadModel_ok param_modelInfo_ok param_listModels_ok param_listRunningModels_ok
  param_imageFile_ok param_imageBase64_ok param_options_ok param_message_ok
  param_systemMessage_ok param_think_ok

lemma dispatch_param_ok: "step_ok (calls st) (\<lambda>x. x) (dispatch_param L H st n v)"
  unfolding dispatch_param_def by (simp add: param_ok)

lemma parse_pair_ok: "step_ok (calls st) (\<lambda>x. x) (parse_pair L H st name v)"
  unfolding parse_pair_def
  by (auto intro!: step_ok_intros dispatch_param_ok)

lemma parse_args_ok:
  "extends cs0 (calls st) \<Longrightarrow> step_ok cs0 (\<lambda>x. x) (parse_args L H st args)"
proof (induction L H st args rule: parse_args.induct)
  case (1 L H st)
  then show ?case by simp
next
  case (2 L H st name)
  then show ?case by (simp add: early_outcome_def)
next
  case (3 L H st name v rest)
  have "step_ok cs0 (\<lambda>x. x) (parse_pair L H st name v)"
    using parse_pair_ok [of st L H name v] "3.prems"
    by (cases "parse_pair L H st name v") (auto intro: extends_trans)
  then show ?case
    unfolding parse_args.simps
    by (rule step_ok_and_then) (rule "3.IH")
qed


subsection \<open>Errors only\<close>


lemma errs_only_simps [simp]:
  "errs_only (Continue x)"
  "errs_only (Stop out cs) = (\<exists>m. out = Error m)"
  "errs_only (error st m)"
  by (simp_all add: errs_only_def error_def split: outcome.splits)

lemma errs_only_with_string:
  "(\<And>s. errs_only (k s)) \<Longrightarrow> errs_only (with_string H st v k)"
  by (simp add: with_string_def split: sum.splits)

lemma errs_only_with_cell:
  "(\<And>C. cell_value v = Inr C \<Longrightarrow> errs_only (k C)) \<Longrightarrow> errs_only (with_cell st v k)"
  by (simp add: with_cell_def split: sum.splits)

lemma errs_only_and_then:
  "errs_only r \<Longrightarrow> (\<And>x. errs_only (k x)) \<Longrightarrow> errs_only (and_then r k)"
  by (cases r) simp_all

lemma errs_only_elem:
  "j < numel C \<Longrightarrow> (\<And>v. errs_only (k v)) \<Longrightarrow> errs_only (with_elem st (elem C j) k)"
  by (simp add: elem_def)

lemma image_strings_errs:
  "\<forall>j \<in> set ks. j < numel files \<Longrightarrow> errs_only (image_strings H files ks st)"
proof (induction ks arbitrary: st)
  case Nil
  then show ?case by simp
next
  case (Cons j ks)
  then show ?case
    by (auto intro!: errs_only_elem errs_only_with_string)
qed

lemma set_has_images_errs: "errs_only (set_has_images st)"
  by (simp add: set_has_images_def)

lemma set_options_errs: "errs_only (set_options H opt flds st)"
proof (induction flds arbitrary: st)
  case Nil
  then show ?case by simp
next
  case (Cons kf flds)
  obtain k kind where kf: "kf = (k, kind)" by (cases kf)
  show ?case
    unfolding kf by (auto simp: Cons.IH split: sum.splits)
qed

lemma dispatch_param_errs:
  assumes "n \<noteq> ''serverURL''" "n \<noteq> ''imageFile''" "n \<noteq> ''message''"
  shows "errs_only (dispatch_param L H st n v)"
proof -
  have copy: "errs_only (param_copyModel H st v)"
    unfolding param_copyModel_def
    by (auto intro!: errs_only_with_cell errs_only_elem errs_only_with_string)
  have b64: "errs_only (param_imageBase64 H st v)"
    unfolding param_imageBase64_def
    by (auto intro!: errs_only_with_cell errs_only_with_string errs_only_and_then
        image_strings_errs set_has_images_errs)
  have opts: "errs_only (param_options H st v)"
    unfolding param_options_def by (auto simp: set_options_errs split: sum.splits)
  have lm: "errs_only (param_listModels H st v)"
    unfolding param_listModels_def
    by (auto intro!: errs_only_with_string errs_only_and_then)
  have lrm: "errs_only (param_listRunningModels H st v)"
    unfolding param_listRunningModels_def
    by (auto intro!: errs_only_with_string errs_only_and_then)
  have rt: "errs_only (param_readTimeout H st v)" "errs_only (param_writeTimeout H st v)"
    unfolding param_readTimeout_def param_writeTimeout_def by (auto split: sum.splits)
  have simple:
    "errs_only (param_model H st v)" "errs_only (param_prompt H st v)"
    "errs_only (param_Query H st v)" "errs_only (param_loadModel H st v)"
    "errs_only (param_pullModel H st v)" "errs_only (param_deleteModel H st v)"
    "errs_only (param_unloadModel H st v)" "errs_only (param_modelInfo H st v)"
    "errs_only (param_systemMessage H st v)" "errs_only (param_think H st v)"
    unfolding param_model_def param_prompt_def param_Query_def param_loadModel_def
      param_pullModel_def param_deleteModel_def param_unloadModel_def param_modelInfo_def
      param_systemMessage_def param_think_def Let_def
    by (auto intro!: errs_only_with_string)
  show ?thesis
    unfolding dispatch_param_def using assms
    by (simp add: copy b64 opts lm lrm rt simple)
qed


lemma parse_pair_errs: "quiet_name name \<Longrightarrow> errs_only (parse_pair L H st name v)"
  unfolding parse_pair_def quiet_name_def
  by (auto simp: is_string_iff intro!: dispatch_param_errs)

lemma parse_args_errs:
  "even (length args) \<Longrightarrow> quiet args \<Longrightarrow> errs_only (parse_args L H st args)"
  unfolding quiet_def
proof (induction L H st args rule: parse_args.induct)
  case (1 L H st)
  then show ?case by simp
next
  case (2 L H st name)
  then show ?case by simp
next
  case (3 L H st name v rest)
  then show ?case
    by (auto intro!: errs_only_and_then parse_pair_errs)
qed

lemma with_string_Continue:
  "with_string H st v k = Continue x \<Longrightarrow> \<exists>s. string_value H v = Inr s \<and> k s = Continue x"
  by (auto simp: with_string_def split: sum.splits)

lemma with_elem_Continue:
  "with_elem st y k = Continue x \<Longrightarrow> \<exists>v. y = Some v \<and> k v = Continue x"
  by (cases y) auto

lemma with_cell_Continue:
  "with_cell st v k = Continue x \<Longrightarrow> \<exists>C. cell_value v = Inr C \<and> k C = Continue x"
  by (auto simp: with_cell_def split: sum.splits)

lemma and_then_Continue:
  "and_then r k = Continue x \<Longrightarrow> \<exists>y. r = Continue y \<and> k y = Continue x"
  by (cases r) auto

lemma from_file_Continue:
  "from_file L st p k = Continue x \<Longrightarrow>
   \<exists>im. image_from_file L (calls st) p = Inr im \<and> k im (called st (Image_from_file p)) = Continue x"
  by (auto simp: from_file_def split: sum.splits)

lemmas Continue_dests =
  with_string_Continue with_elem_Continue with_cell_Continue and_then_Continue from_file_Continue

lemma effectI:
  assumes "\<And>m. holds st' m = (holds st m \<or> m \<in> ms)"
    and "retval0 st' = retval0 st" and "retval1 st' = retval1 st"
  shows "effect st ms st'"
  using assms by (simp add: effect_def)

lemma effect_refl [simp]: "effect st {} st"
  by (simp add: effect_def)

lemma effect_trans: "effect st a st1 \<Longrightarrow> effect st1 b st2 \<Longrightarrow> effect st (a \<union> b) st2"
  by (auto simp: effect_def)

lemma effect_trans_empty: "effect st {} st1 \<Longrightarrow> effect st1 b st2 \<Longrightarrow> effect st b st2"
  using effect_trans [of st "{}" st1 b st2] by simp

lemma all_marks:
  "(\<forall>m. P m) \<longleftrightarrow>
     P M_running \<and> P M_status \<and> P M_version \<and> P M_load \<and> P M_pull \<and> P M_copy \<and> P M_delete
     \<and> P M_unload \<and> P M_info \<and> P M_list \<and> P M_listrun \<and> P M_prompt \<and> P M_messages \<and> P M_model"
proof
  assume r: "P M_running \<and> P M_status \<and> P M_version \<and> P M_load \<and> P M_pull \<and> P M_copy \<and> P M_delete
     \<and> P M_unload \<and> P M_info \<and> P M_list \<and> P M_listrun \<and> P M_prompt \<and> P M_messages \<and> P M_model"
  show "\<forall>m. P m"
  proof
    fix m show "P m" using r by (cases m) simp_all
  qed
qed simp

lemma effect_iff:
  "effect st ms st' \<longleftrightarrow>
     (running st' = (running st \<or> M_running \<in> ms))
     \<and> (query_status st' = (query_status st \<or> M_status \<in> ms))
     \<and> (query_version st' = (query_version st \<or> M_version \<in> ms))
     \<and> (do_loadModel st' = (do_loadModel st \<or> M_load \<in> ms))
     \<and> (do_pullModel st' = (do_pullModel st \<or> M_pull \<in> ms))
     \<and> (do_copyModel st' = (do_copyModel st \<or> M_copy \<in> ms))
     \<and> (do_deleteModel st' = (do_deleteModel st \<or> M_delete \<in> ms))
     \<and> (do_unloadModel st' = (do_unloadModel st \<or> M_unload \<in> ms))
     \<and> (do_modelInfo st' = (do_modelInfo st \<or> M_info \<in> ms))
     \<and> (do_listModels st' = (do_listModels st \<or> M_list \<in> ms))
     \<and> (do_listRunningModels st' = (do_listRunningModels st \<or> M_listrun \<in> ms))
     \<and> (has_prompt st' = (has_prompt st \<or> M_prompt \<in> ms))
     \<and> (has_messages st' = (has_messages st \<or> M_messages \<in> ms))
     \<and> ((model st' \<noteq> []) = (model st \<noteq> [] \<or> M_model \<in> ms))
     \<and> retval0 st' = retval0 st \<and> retval1 st' = retval1 st"
  unfolding effect_def all_marks by simp

lemma param_model_Continue:
  "param_model H st v = Continue st' \<Longrightarrow> \<not> isempty v \<Longrightarrow> effect st {M_model} st'"
  by (auto simp: param_model_def is_string_iff effect_iff split: if_splits)

lemma param_prompt_Continue:
  "param_prompt H st v = Continue st' \<Longrightarrow> \<not> has_messages st \<and> effect st {M_prompt} st'"
  by (auto simp: param_prompt_def is_string_iff Let_def effect_iff split: if_splits)

lemma param_serverURL_Continue:
  "param_serverURL L H st v = Continue st' \<Longrightarrow> effect st {M_running} st'"
  by (auto simp: param_serverURL_def is_string_iff Let_def called_def effect_iff split: if_splits)

lemma param_readTimeout_Continue:
  "param_readTimeout H st v = Continue st' \<Longrightarrow> effect st {} st'"
  by (auto simp: param_readTimeout_def called_def effect_iff split: if_splits sum.splits)

lemma param_writeTimeout_Continue:
  "param_writeTimeout H st v = Continue st' \<Longrightarrow> effect st {} st'"
  by (auto simp: param_writeTimeout_def called_def effect_iff split: if_splits sum.splits)

lemma param_Query_Continue:
  "param_Query H st v = Continue st' \<Longrightarrow>
   effect st (if v = OString ''status'' then {M_status} else {M_version}) st'"
  by (auto simp: param_Query_def is_string_iff effect_iff split: if_splits)

lemma param_loadModel_Continue:
  "param_loadModel H st v = Continue st' \<Longrightarrow> effect st {M_load} st'"
  by (auto simp: param_loadModel_def is_string_iff effect_iff split: if_splits)

lemma param_pullModel_Continue:
  "param_pullModel H st v = Continue st' \<Longrightarrow> effect st {M_pull} st'"
  by (auto simp: param_pullModel_def is_string_iff effect_iff split: if_splits)

lemma param_copyModel_Continue:
  "param_copyModel H st v = Continue st' \<Longrightarrow> effect st {M_copy} st'"
  by (auto simp: param_copyModel_def effect_iff split: if_splits dest!: Continue_dests)

lemma param_deleteModel_Continue:
  "param_deleteModel H st v = Continue st' \<Longrightarrow> effect st {M_delete} st'"
  by (auto simp: param_deleteModel_def is_string_iff effect_iff split: if_splits)

lemma param_unloadModel_Continue:
  "param_unloadModel H st v = Continue st' \<Longrightarrow> effect st {M_unload} st'"
  by (auto simp: param_unloadModel_def is_string_iff effect_iff split: if_splits)

lemma param_modelInfo_Continue:
  "param_modelInfo H st v = Continue st' \<Longrightarrow> effect st {M_info} st'"
  by (auto simp: param_modelInfo_def is_string_iff effect_iff split: if_splits)

lemma param_listModels_Continue:
  "param_listModels H st v = Continue st' \<Longrightarrow> effect st {M_list} st'"
  by (auto simp: param_listModels_def is_string_iff effect_iff split: if_splits dest!: Continue_dests)

lemma param_listRunningModels_Continue:
  "param_listRunningModels H st v = Continue st' \<Longrightarrow> effect st {M_listrun} st'"
  by (auto simp: param_listRunningModels_def is_string_iff effect_iff split: if_splits
      dest!: Continue_dests)

lemma param_systemMessage_Continue:
  "param_systemMessage H st v = Continue st' \<Longrightarrow> effect st {} st'"
  by (auto simp: param_systemMessage_def is_string_iff effect_iff split: if_splits)

lemma param_think_Continue:
  "param_think H st v = Continue st' \<Longrightarrow> effect st {} st'"
  by (auto simp: param_think_def is_string_iff effect_iff split: if_splits)

lemma set_has_images_Continue:
  "set_has_images st = Continue st' \<Longrightarrow> effect st {} st'"
  by (auto simp: set_has_images_def effect_iff split: if_splits)

lemma image_files_Continue:
  "image_files L H files ks st = Continue st' \<Longrightarrow> effect st {} st'"
proof (induction ks arbitrary: st)
  case Nil
  then show ?case by simp
next
  case (Cons k ks)
  from Cons.prems obtain s im where
    rest: "image_files L H files ks ((called st (Image_from_file s))\<lparr>images := images st @ [im]\<rparr>)
             = Continue st'"
    by (auto simp: called_def dest!: Continue_dests)
  have "effect st {} ((called st (Image_from_file s))\<lparr>images := images st @ [im]\<rparr>)"
    by (simp add: effect_iff called_def)
  from effect_trans_empty [OF this Cons.IH [OF rest]] show ?case .
qed

lemma image_strings_Continue:
  "image_strings H files ks st = Continue st' \<Longrightarrow> effect st {} st'"
proof (induction ks arbitrary: st)
  case Nil
  then show ?case by simp
next
  case (Cons k ks)
  from Cons.prems obtain s where
    rest: "image_strings H files ks (st\<lparr>images := images st @ [from_base64_string s]\<rparr>)
             = Continue st'"
    by (auto dest!: Continue_dests)
  have "effect st {} (st\<lparr>images := images st @ [from_base64_string s]\<rparr>)"
    by (simp add: effect_iff)
  from effect_trans_empty [OF this Cons.IH [OF rest]] show ?case .
qed

lemma set_options_Continue:
  "set_options H opt flds st = Continue st' \<Longrightarrow> effect st {} st'"
proof (induction flds arbitrary: st)
  case Nil
  then show ?case by simp
next
  case (Cons kf flds)
  obtain k kind where kf: "kf = (k, kind)" by (cases kf)
  show ?case
  proof (cases "isfield opt k")
    case True
    with Cons.prems kf obtain x where
      rest: "set_options H opt flds (st\<lparr>options := AList.update k x (options st)\<rparr>) = Continue st'"
      by (auto split: sum.splits)
    have "effect st {} (st\<lparr>options := AList.update k x (options st)\<rparr>)"
      by (simp add: effect_iff)
    from effect_trans_empty [OF this Cons.IH [OF rest]] show ?thesis .
  next
    case False
    with Cons.prems kf show ?thesis by (simp add: Cons.IH)
  qed
qed

lemma param_imageFile_Continue:
  "param_imageFile L H st v = Continue st' \<Longrightarrow> effect st {} st'"
proof -
  assume a: "param_imageFile L H st v = Continue st'"
  then obtain st1 where 1: "set_has_images st1 = Continue st'" and 2: "effect st {} st1"
    by (auto simp: param_imageFile_def called_def effect_iff split: if_splits
        dest!: Continue_dests dest: image_files_Continue)
  from effect_trans_empty [OF 2 set_has_images_Continue [OF 1]] show ?thesis .
qed

lemma param_imageBase64_Continue:
  "param_imageBase64 H st v = Continue st' \<Longrightarrow> effect st {} st'"
proof -
  assume a: "param_imageBase64 H st v = Continue st'"
  then obtain st1 where 1: "set_has_images st1 = Continue st'" and 2: "effect st {} st1"
    by (auto simp: param_imageBase64_def effect_iff split: if_splits
        dest!: Continue_dests dest: image_strings_Continue)
  from effect_trans_empty [OF 2 set_has_images_Continue [OF 1]] show ?thesis .
qed

lemma param_options_Continue:
  "param_options H st v = Continue st' \<Longrightarrow> effect st {} st'"
  by (auto simp: param_options_def split: if_splits sum.splits dest: set_options_Continue)

lemma message_images_Continue:
  "message_images L H img ks msg_images has_msg_images st = Continue (a, b, st') \<Longrightarrow>
   effect st {} st'"
proof (induction ks arbitrary: st msg_images has_msg_images)
  case Nil
  then show ?case by simp
next
  case (Cons k ks)
  from Cons.prems obtain mi hi st1 where
    rest: "message_images L H img ks mi hi st1 = Continue (a, b, st')"
    and 1: "effect st {} st1"
    by (auto simp: called_def effect_iff split: if_splits dest!: Continue_dests)
  from effect_trans_empty [OF 1 Cons.IH [OF rest]] show ?case .
qed

lemma previous_response_Continue:
  "previous_response H st v k = Continue x \<Longrightarrow> \<exists>s. k s = Continue x"
  by (auto simp: previous_response_def split: if_splits dest!: Continue_dests)

lemma message_rows_Continue:
  "message_rows L H msg ks st = Continue st' \<Longrightarrow> effect st {} st'"
proof (induction ks arbitrary: st)
  case Nil
  then show ?case by simp
next
  case (Cons k ks)
  from Cons.prems obtain st1 where
    rest: "message_rows L H msg ks st1 = Continue st'"
    and 1: "effect st {} st1"
    apply (simp only: message_rows.simps Let_def)
    apply (auto split: if_splits dest!: Continue_dests previous_response_Continue
        dest: message_images_Continue)
     apply (fastforce simp: effect_iff dest: message_images_Continue)+
    done
  from effect_trans_empty [OF 1 Cons.IH [OF rest]] show ?case .
qed

lemma param_message_Continue:
  "param_message L H st v = Continue st' \<Longrightarrow> \<not> has_prompt st \<and> effect st {M_messages} st'"
proof -
  assume a: "param_message L H st v = Continue st'"
  then have np: "\<not> has_prompt st"
    by (auto simp: param_message_def split: if_splits)
  from a np obtain msg ks where "message_rows L H msg ks (st\<lparr>has_messages := True\<rparr>) = Continue st'"
    by (auto simp: param_message_def Let_def split: if_splits dest!: Continue_dests)
  from message_rows_Continue [OF this] have "effect (st\<lparr>has_messages := True\<rparr>) {} st'" .
  moreover have "effect st {M_messages} (st\<lparr>has_messages := True\<rparr>)"
    by (simp add: effect_iff)
  ultimately have "effect st {M_messages} st'"
    using effect_trans [of st "{M_messages}" "st\<lparr>has_messages := True\<rparr>" "{}" st'] by simp
  with np show ?thesis by simp
qed

lemma dispatch_param_Continue:
  assumes "dispatch_param L H st n v = Continue st'" and "\<not> isempty v"
  shows "effect st (requested (OString n) v) st'"
  using assms
  by (auto simp: dispatch_param_def requested_def split: if_splits
      dest: param_model_Continue param_prompt_Continue param_serverURL_Continue
        param_readTimeout_Continue param_writeTimeout_Continue param_Query_Continue
        param_loadModel_Continue param_pullModel_Continue param_copyModel_Continue
        param_deleteModel_Continue param_unloadModel_Continue param_modelInfo_Continue
        param_listModels_Continue param_listRunningModels_Continue param_imageFile_Continue
        param_imageBase64_Continue param_options_Continue param_message_Continue
        param_systemMessage_Continue param_think_Continue)

lemma parse_pair_Continue:
  assumes "parse_pair L H st name v = Continue st'"
  shows "effect st (requested name v) st'"
  using assms
  by (auto simp: parse_pair_def is_string_iff split: if_splits dest: dispatch_param_Continue)

lemma parse_args_Continue:
  "parse_args L H st args = Continue st' \<Longrightarrow> effect st (requests args) st'"
proof (induction L H st args rule: parse_args.induct)
  case (1 L H st)
  then show ?case by (simp add: requests_def)
next
  case (2 L H st name)
  then show ?case by simp
next
  case (3 L H st name v rest)
  from "3.prems" obtain st1 where
    1: "parse_pair L H st name v = Continue st1" and 2: "parse_args L H st1 rest = Continue st'"
    by (auto dest!: and_then_Continue)
  from effect_trans [OF parse_pair_Continue [OF 1] "3.IH" [OF 2]]
  show ?case by (simp add: requests_def)
qed

lemma parse_args_append:
  "even (length pre) \<Longrightarrow>
   parse_args L H st (pre @ rest) = and_then (parse_args L H st pre) (\<lambda>st1. parse_args L H st1 rest)"
proof (induction L H st pre rule: parse_args.induct)
  case (1 L H st)
  then show ?case by simp
next
  case (2 L H st name)
  then show ?case by simp
next
  case (3 L H st name v rest')
  then show ?case by (cases "parse_pair L H st name v") simp_all
qed

lemma extends_helper: "extends [Is_running] cs \<Longrightarrow> list_all helper_call cs"
  by (auto simp: extends_def)

lemma initial_calls [simp]: "calls (initial_state r) = [Is_running]"
  by (simp add: initial_state_def)

lemma parse_args_initial_ok:
  "step_ok [Is_running] (\<lambda>x. x) (parse_args L H (initial_state r) args)"
  by (rule parse_args_ok) simp

lemma is_error_simps [simp]:
  "is_error (Error m, cs)"
  "\<not> is_error (Returned a b, cs)"
  "\<not> is_error (Uncaught x, cs)"
  "\<not> is_error (Out_of_bounds, cs)"
  by (simp_all add: is_error_def)

lemma no_result_error [simp]: "no_result (Error m, cs) = list_all helper_call cs"
  by (simp add: no_result_def early_outcome_def)

text \<open>A pair that raises an error whenever it is reached ends the call without a result.\<close>

lemma ollama_stops_at:
  assumes ev: "even (length P)"
    and stop: "\<And>st. parse_args L H (initial_state (is_running L [])) P = Continue st \<Longrightarrow>
                 \<exists>m. parse_pair L H st n v = Stop (Error m) (calls st)"
  shows "no_result (ollama L H nargout (P @ n # v # post))
       \<and> (quiet P \<longrightarrow> is_error (ollama L H nargout (P @ n # v # post)))"
proof (cases "nargout = 2")
  case False
  then show ?thesis by (simp add: ollama_def)
next
  case True
  let ?st0 = "initial_state (is_running L [])"
  have split: "parse_args L H ?st0 (P @ n # v # post)
      = and_then (parse_args L H ?st0 P) (\<lambda>st1. parse_args L H st1 (n # v # post))"
    using ev by (rule parse_args_append)
  have ok: "step_ok [Is_running] (\<lambda>x. x) (parse_args L H ?st0 P)"
    by (rule parse_args_initial_ok)
  show ?thesis
  proof (cases "length (P @ n # v # post) mod 2 = 0")
    case False
    then show ?thesis using True by (simp add: ollama_def Let_def)
  next
    case len: True
    show ?thesis
    proof (cases "parse_args L H ?st0 P")
      case (Stop out cs)
      with ok have e: "early_outcome out" "list_all helper_call cs"
        by (auto dest: extends_helper)
      have q: "quiet P \<Longrightarrow> \<exists>m. out = Error m"
        using parse_args_errs [OF ev, of L H ?st0] Stop
        by (auto simp: errs_only_def split: outcome.splits)
      have "ollama L H nargout (P @ n # v # post) = (out, cs)"
        using True len Stop by (simp add: ollama_def Let_def split)
      with e q show ?thesis by (auto simp: no_result_def)
    next
      case (Continue st)
      from stop [OF Continue] obtain m where m: "parse_pair L H st n v = Stop (Error m) (calls st)" ..
      from ok Continue have "list_all helper_call (calls st)"
        by (auto dest: extends_helper)
      moreover have "ollama L H nargout (P @ n # v # post) = (Error m, calls st)"
        using True len Continue m by (simp add: ollama_def Let_def split)
      ultimately show ?thesis by simp
    qed
  qed
qed

lemma parse_pair_bad:
  "isempty n \<or> isempty v \<or> \<not> is_string n \<Longrightarrow> \<exists>m. parse_pair L H st n v = Stop (Error m) (calls st)"
  by (auto simp: parse_pair_def error_def)

lemma parse_pair_named:
  "n \<noteq> [] \<Longrightarrow> \<not> isempty v \<Longrightarrow> parse_pair L H st (OString n) v = dispatch_param L H st n v"
  by (simp add: parse_pair_def)

lemma dispatch_param_simps:
  "dispatch_param L H st ''model'' v = param_model H st v"
  "dispatch_param L H st ''prompt'' v = param_prompt H st v"
  "dispatch_param L H st ''serverURL'' v = param_serverURL L H st v"
  "dispatch_param L H st ''readTimeout'' v = param_readTimeout H st v"
  "dispatch_param L H st ''writeTimeout'' v = param_writeTimeout H st v"
  "dispatch_param L H st ''Query'' v = param_Query H st v"
  "dispatch_param L H st ''loadModel'' v = param_loadModel H st v"
  "dispatch_param L H st ''pullModel'' v = param_pullModel H st v"
  "dispatch_param L H st ''copyModel'' v = param_copyModel H st v"
  "dispatch_param L H st ''deleteModel'' v = param_deleteModel H st v"
  "dispatch_param L H st ''unloadModel'' v = param_unloadModel H st v"
  "dispatch_param L H st ''modelInfo'' v = param_modelInfo H st v"
  "dispatch_param L H st ''listModels'' v = param_listModels H st v"
  "dispatch_param L H st ''listRunningModels'' v = param_listRunningModels H st v"
  "dispatch_param L H st ''imageFile'' v = param_imageFile L H st v"
  "dispatch_param L H st ''imageBase64'' v = param_imageBase64 H st v"
  "dispatch_param L H st ''options'' v = param_options H st v"
  "dispatch_param L H st ''message'' v = param_message L H st v"
  "dispatch_param L H st ''systemMessage'' v = param_systemMessage H st v"
  "dispatch_param L H st ''think'' v = param_think H st v"
  by (simp_all add: dispatch_param_def)

lemma not_string_fails:
  assumes "\<not> is_string v"
  shows "\<exists>m. param_model H st v = Stop (Error m) (calls st)"
    and "\<exists>m. param_prompt H st v = Stop (Error m) (calls st)"
    and "\<exists>m. param_serverURL L H st v = Stop (Error m) (calls st)"
    and "\<exists>m. param_Query H st v = Stop (Error m) (calls st)"
    and "\<exists>m. param_loadModel H st v = Stop (Error m) (calls st)"
    and "\<exists>m. param_pullModel H st v = Stop (Error m) (calls st)"
    and "\<exists>m. param_deleteModel H st v = Stop (Error m) (calls st)"
    and "\<exists>m. param_unloadModel H st v = Stop (Error m) (calls st)"
    and "\<exists>m. param_modelInfo H st v = Stop (Error m) (calls st)"
    and "\<exists>m. param_systemMessage H st v = Stop (Error m) (calls st)"
    and "\<exists>m. param_think H st v = Stop (Error m) (calls st)"
  using assms
  by (simp_all add: param_model_def param_prompt_def param_serverURL_def param_Query_def
      param_loadModel_def param_pullModel_def param_deleteModel_def param_unloadModel_def
      param_modelInfo_def param_systemMessage_def param_think_def error_def Let_def)

lemma not_double_scalar_fails:
  assumes "\<not> (is_scalar_type v \<and> is_double_type v)"
  shows "\<exists>m. param_readTimeout H st v = Stop (Error m) (calls st)"
    and "\<exists>m. param_writeTimeout H st v = Stop (Error m) (calls st)"
  using assms
  by (auto simp: param_readTimeout_def param_writeTimeout_def error_def)

lemma not_two_cellstr_fails:
  assumes "\<not> (iscellstr v \<and> (case cell_value v of Inr C \<Rightarrow> numel C = 2 | Inl e \<Rightarrow> False))"
  shows "\<exists>m. param_copyModel H st v = Stop (Error m) (calls st)"
  using assms
  by (cases "cell_value v") (auto simp: param_copyModel_def error_def with_cell_def)

lemma not_scalar_struct_fails:
  assumes "\<not> is_scalar_struct v"
  shows "\<exists>m. param_options H st v = Stop (Error m) (calls st)"
  using assms
  by (cases v) (simp_all add: param_options_def error_def is_scalar_struct_def)

lemma not_three_columns_fails:
  assumes "\<not> (iscell v \<and> columns v = 3)"
  shows "\<exists>m. param_message L H st v = Stop (Error m) (calls st)"
  using assms
  by (cases v) (simp_all add: param_message_def error_def with_cell_def Let_def)

lemma character_vector_check:
  assumes "n \<in> set character_vector_parameters" and "\<not> is_string v"
  shows "\<exists>m. dispatch_param L H st n v = Stop (Error m) (calls st)"
proof -
  from assms(1) consider "n = ''model''" | "n = ''prompt''" | "n = ''serverURL''" | "n = ''Query''"
    | "n = ''loadModel''" | "n = ''pullModel''" | "n = ''deleteModel''" | "n = ''unloadModel''"
    | "n = ''modelInfo''" | "n = ''systemMessage''" | "n = ''think''"
    unfolding character_vector_parameters_def by force
  then show ?thesis
    by cases (simp_all only: dispatch_param_simps not_string_fails [OF assms(2)])
qed

lemma type_check_fails:
  assumes "n \<in> set typed_parameters" and "\<not> required_type n v"
  shows "\<exists>m. parse_pair L H st (OString n) v = Stop (Error m) (calls st)"
proof (cases "isempty v")
  case True
  then show ?thesis by (simp add: parse_pair_bad)
next
  case False
  from assms(1) have ne: "n \<noteq> []"
    by (auto simp: typed_parameters_def character_vector_parameters_def)
  from assms(1) consider (chars) "n \<in> set character_vector_parameters"
    | (rt) "n = ''readTimeout''" | (wt) "n = ''writeTimeout''" | (copy) "n = ''copyModel''"
    | (opts) "n = ''options''" | (msg) "n = ''message''"
    unfolding typed_parameters_def by force
  then have "\<exists>m. dispatch_param L H st n v = Stop (Error m) (calls st)"
  proof cases
    case chars
    with assms(2) have "\<not> is_string v" by (simp add: required_type_def)
    with chars show ?thesis by (rule character_vector_check)
  next
    case rt
    with assms(2) have "\<not> (is_scalar_type v \<and> is_double_type v)"
      by (simp add: required_type_def character_vector_parameters_def)
    then show ?thesis unfolding rt dispatch_param_simps by (rule not_double_scalar_fails)
  next
    case wt
    with assms(2) have "\<not> (is_scalar_type v \<and> is_double_type v)"
      by (simp add: required_type_def character_vector_parameters_def)
    then show ?thesis unfolding wt dispatch_param_simps by (rule not_double_scalar_fails)
  next
    case copy
    with assms(2)
    have "\<not> (iscellstr v \<and> (case cell_value v of Inr C \<Rightarrow> numel C = 2 | Inl e \<Rightarrow> False))"
      by (simp add: required_type_def character_vector_parameters_def)
    then show ?thesis unfolding copy dispatch_param_simps by (rule not_two_cellstr_fails)
  next
    case opts
    with assms(2) have "\<not> is_scalar_struct v"
      by (simp add: required_type_def character_vector_parameters_def)
    then show ?thesis unfolding opts dispatch_param_simps by (rule not_scalar_struct_fails)
  next
    case msg
    with assms(2) have "\<not> (iscell v \<and> columns v = 3)"
      by (simp add: required_type_def character_vector_parameters_def)
    then show ?thesis unfolding msg dispatch_param_simps by (rule not_three_columns_fails)
  qed
  with ne False show ?thesis by (simp add: parse_pair_named)
qed





lemma requests_Cons [simp]: "requests (n # v # rest) = requested n v \<union> requests rest"
  by (simp add: requests_def)

lemma requests_Nil [simp]: "requests [] = {}"
  by (simp add: requests_def)


lemma run_operation_perform: "run_operation L st = perform L st (chosen st)"
  by (simp add: run_operation_def chosen_def priority_def return_retval_def)

lemma ollama_parsed:
  assumes "nargout = 2" and "even (length args)" and "parse_args L H (start L) args = Continue st"
  shows "ollama L H nargout args = run_operation L st"
proof -
  from assms(2) have "length args mod 2 = 0" by presburger
  with assms(1,3) show ?thesis by (simp add: ollama_def start_def Let_def)
qed

lemma wanted_holds:
  "wanted st op =
     (case op of Not_running \<Rightarrow> \<not> holds st M_running | Status \<Rightarrow> holds st M_status
      | Version \<Rightarrow> holds st M_version | Load \<Rightarrow> holds st M_load | Pull \<Rightarrow> holds st M_pull
      | Copy \<Rightarrow> holds st M_copy | Delete \<Rightarrow> holds st M_delete | Unload \<Rightarrow> holds st M_unload
      | Model_info \<Rightarrow> holds st M_info | List_models_op \<Rightarrow> holds st M_list
      | List_running_op \<Rightarrow> holds st M_listrun | Inference \<Rightarrow> True)"
  by (cases op) simp_all




subsection \<open>The calls of each operation\<close>

lemma snd_catch_exception [simp]: "snd (catch_exception r) = trace_of r"
  by (auto simp: catch_exception_def return_retval_def split: sum.splits exn.splits)

lemma snd_uncaught [simp]: "snd (uncaught r) = trace_of r"
  by (auto simp: uncaught_def return_retval_def split: sum.splits)

lemma trace_invoke_Inr [simp]:
  "trace_of (invoke st c answer (\<lambda>y st1. Inr (f y st1))) =
     (case answer of Inl x \<Rightarrow> calls st @ [c] | Inr y \<Rightarrow> calls (f y (called st c)))"
  by (simp add: invoke_def called_def split: sum.splits)

lemma op_traces:
  "snd (op_version L st) = calls st @ [Get_version]"
  "snd (op_loadModel L st) = calls st @ [Load_model (source st)]"
  "snd (op_pullModel L st) = calls st @ [Pull_model (source st)]"
  "snd (op_copyModel L st) = calls st @ [Copy_model (source st) (target st)]"
  "snd (op_deleteModel L st) = calls st @ [Delete_model (source st)]"
  "snd (op_unloadModel L st) = calls st @ [Unload_model (source st)]"
  "snd (op_listModels L st) = calls st @ [if return_cellstr st then List_models else List_model_json]"
  "snd (op_listRunningModels L st) =
     calls st @ [if return_cellstr st then List_running_models else Running_model_json]"
  "snd (op_generate L st) =
     calls st @ [Generate (model st) (prompt st) (think st) (sysmsg st) (options st) (images st)]"
  "snd (op_chat L st) = calls st @ [Chat (model st) (messages st) (think st) (sysmsg st) (options st)]"
  by (simp_all add: op_version_def op_loadModel_def op_pullModel_def op_copyModel_def
      op_deleteModel_def op_unloadModel_def op_listModels_def op_listRunningModels_def
      op_generate_def op_chat_def called_def split: sum.splits)

lemma model_info_loop_trace:
  "\<exists>k. k \<le> count_list ms (modelInfoName st)
       \<and> trace_of (model_info_loop L ms st) = calls st @ replicate k (Show_model_info (modelInfoName st))
       \<and> ((\<forall>h. \<exists>j. show_model_info L h (modelInfoName st) = Inr j) \<longrightarrow>
            k = count_list ms (modelInfoName st))"
proof (induction ms arbitrary: st)
  case Nil
  then show ?case by simp
next
  case (Cons m ms)
  let ?n = "modelInfoName st"
  show ?case
  proof (cases "m = ?n")
    case False
    with Cons.IH [of st] show ?thesis by auto
  next
    case True
    show ?thesis
    proof (cases "show_model_info L (calls st) ?n")
      case (Inl x)
      have "trace_of (model_info_loop L (m # ms) st) = calls st @ replicate 1 (Show_model_info ?n)"
        using True Inl by (simp add: invoke_def called_def)
      moreover have "(1::nat) \<le> count_list (m # ms) ?n" using True by simp
      moreover have "\<not> (\<forall>h. \<exists>j. show_model_info L h ?n = Inr j)" using Inl by (metis sum.distinct(1))
      ultimately show ?thesis by blast
    next
      case (Inr j)
      let ?st1 = "(called st (Show_model_info ?n))\<lparr>retval0 := Some (OString (dump j)),
                    retval1 := Some (obool False)\<rparr>"
      have n1: "modelInfoName ?st1 = ?n" by (simp add: called_def)
      from Cons.IH [of ?st1] obtain k where
        k: "k \<le> count_list ms ?n"
        and t: "trace_of (model_info_loop L ms ?st1) = calls ?st1 @ replicate k (Show_model_info ?n)"
        and e: "(\<forall>h. \<exists>j. show_model_info L h ?n = Inr j) \<longrightarrow> k = count_list ms ?n"
        unfolding n1 by blast
      have "trace_of (model_info_loop L (m # ms) st) = calls st @ replicate (Suc k) (Show_model_info ?n)"
        using True Inr t by (simp add: invoke_def called_def)
      moreover have "Suc k \<le> count_list (m # ms) ?n" using True k by simp
      moreover have "(\<forall>h. \<exists>j. show_model_info L h ?n = Inr j) \<longrightarrow> Suc k = count_list (m # ms) ?n"
        using True e by simp
      ultimately show ?thesis by blast
    qed
  qed
qed


lemma op_modelInfo_trace:
  "\<exists>k. snd (op_modelInfo L st) = calls st @ List_models # replicate k (Show_model_info (modelInfoName st))
       \<and> (\<forall>ms. list_models L (calls st) = Inr ms \<longrightarrow> k \<le> count_list ms (modelInfoName st))
       \<and> (\<forall>ms. list_models L (calls st) = Inr ms
              \<and> (\<forall>h. \<exists>j. show_model_info L h (modelInfoName st) = Inr j) \<longrightarrow>
            k = count_list ms (modelInfoName st))"
proof (cases "list_models L (calls st)")
  case (Inl x)
  then have "snd (op_modelInfo L st) = calls st @ List_models # replicate 0 (Show_model_info (modelInfoName st))"
    by (simp add: op_modelInfo_def)
  with Inl show ?thesis by (metis sum.distinct(1))
next
  case (Inr ms)
  let ?st1 = "called st List_models"
  have n1: "modelInfoName ?st1 = modelInfoName st" by (simp add: called_def)
  from model_info_loop_trace [of ms ?st1 L] obtain k where
    k: "k \<le> count_list ms (modelInfoName st)"
    and t: "trace_of (model_info_loop L ms ?st1) = calls ?st1 @ replicate k (Show_model_info (modelInfoName st))"
    and e: "(\<forall>h. \<exists>j. show_model_info L h (modelInfoName st) = Inr j) \<longrightarrow>
            k = count_list ms (modelInfoName st)"
    unfolding n1 by blast
  have "snd (op_modelInfo L st) = calls st @ List_models # replicate k (Show_model_info (modelInfoName st))"
    using Inr t by (simp add: op_modelInfo_def called_def)
  with k e Inr show ?thesis by auto
qed

lemma parsed_helper_calls:
  "parse_args L H (start L) args = Continue st \<Longrightarrow> list_all helper_call (calls st)"
  using parse_args_initial_ok [of L H "is_running L []" args]
  by (auto simp: start_def dest: extends_helper)

lemma chosen_cases:
  "chosen st = Not_running \<longleftrightarrow> \<not> running st"
  "chosen st = Status \<longleftrightarrow> running st \<and> query_status st"
  "chosen st = Model_info \<longleftrightarrow>
     running st \<and> \<not> query_status st \<and> \<not> query_version st \<and> \<not> do_loadModel st \<and> \<not> do_pullModel st
     \<and> \<not> do_copyModel st \<and> \<not> do_deleteModel st \<and> \<not> do_unloadModel st \<and> do_modelInfo st"
  "chosen st = Inference \<longleftrightarrow>
     running st \<and> \<not> query_status st \<and> \<not> query_version st \<and> \<not> do_loadModel st \<and> \<not> do_pullModel st
     \<and> \<not> do_copyModel st \<and> \<not> do_deleteModel st \<and> \<not> do_unloadModel st \<and> \<not> do_modelInfo st
     \<and> \<not> do_listModels st \<and> \<not> do_listRunningModels st"
  by (simp_all add: chosen_def priority_def)

lemma one_operation_call:
  assumes "running st" and "chosen st \<noteq> Status" and "chosen st \<noteq> Model_info"
    and "chosen st = Inference \<longrightarrow> model st \<noteq> [] \<and> (has_prompt st \<or> has_messages st)"
  shows "\<exists>c. operation_call st (chosen st) = Some c \<and> snd (run_operation L st) = calls st @ [c]"
proof -
  have nr: "chosen st \<noteq> Not_running" using assms(1) by (simp add: chosen_cases)
  show ?thesis
  proof (cases "chosen st")
    case Inference
    with assms(4) have "snd (inference L st) = calls st @
        [if has_prompt st
         then Generate (model st) (prompt st) (think st) (sysmsg st) (options st) (images st)
         else Chat (model st) (messages st) (think st) (sysmsg st) (options st)]"
      by (auto simp: inference_def op_traces)
    with Inference show ?thesis by (simp add: run_operation_perform)
  qed (use nr assms(2,3) in \<open>simp_all add: run_operation_perform op_traces\<close>)
qed


subsection \<open>Prompt and message\<close>

lemma requested_prompt_message:
  "M_prompt \<in> requested name v \<longleftrightarrow> name = OString ''prompt''"
  "M_messages \<in> requested name v \<longleftrightarrow> name = OString ''message''"
  "M_model \<in> requested name v \<longleftrightarrow> name = OString ''model''"
  by (simp_all add: requested_def)

lemma supplies_iff: "supplies args n \<longleftrightarrow> (\<exists>v. (OString n, v) \<in> set (pairs args))"
  by (force simp: supplies_def)

lemma requests_supplies:
  "M_prompt \<in> requests args \<longleftrightarrow> supplies args ''prompt''"
  "M_messages \<in> requests args \<longleftrightarrow> supplies args ''message''"
  "M_model \<in> requests args \<longleftrightarrow> supplies args ''model''"
  unfolding supplies_iff requests_def
  by (auto simp: requested_prompt_message) (force simp: requested_prompt_message)+

lemma conflict_prompt_message:
  "has_prompt st \<Longrightarrow> \<exists>m. parse_pair L H st (OString ''message'') v = Stop (Error m) (calls st)"
  "has_messages st \<Longrightarrow> \<exists>m. parse_pair L H st (OString ''prompt'') v = Stop (Error m) (calls st)"
  by (simp_all add: parse_pair_def dispatch_param_simps param_message_def param_prompt_def error_def)

lemma parse_pair_exclusive:
  assumes c: "parse_pair L H st name v = Continue st'"
    and x: "\<not> (has_prompt st \<and> has_messages st)"
  shows "\<not> (has_prompt st' \<and> has_messages st')"
proof -
  from parse_pair_Continue [OF c]
  have p: "has_prompt st' = (has_prompt st \<or> name = OString ''prompt'')"
    and m: "has_messages st' = (has_messages st \<or> name = OString ''message'')"
    by (simp_all add: effect_iff requested_prompt_message)
  have "\<not> has_messages st" if "name = OString ''prompt''"
    using conflict_prompt_message(2) [of st L H v] c that by auto
  moreover have "\<not> has_prompt st" if "name = OString ''message''"
    using conflict_prompt_message(1) [of st L H v] c that by auto
  ultimately show ?thesis using p m x by auto
qed

lemma parse_args_exclusive:
  "parse_args L H st args = Continue st' \<Longrightarrow> \<not> (has_prompt st \<and> has_messages st) \<Longrightarrow>
   \<not> (has_prompt st' \<and> has_messages st')"
proof (induction L H st args rule: parse_args.induct)
  case (1 L H st)
  then show ?case by simp
next
  case (2 L H st name)
  then show ?case by simp
next
  case (3 L H st name v rest)
  from "3.prems"(1) obtain st1 where
    1: "parse_pair L H st name v = Continue st1" and 2: "parse_args L H st1 rest = Continue st'"
    by (auto dest!: and_then_Continue)
  from parse_pair_exclusive [OF 1 "3.prems"(2)] "3.IH" [OF 2] show ?case by simp
qed

lemma parsed_inputs:
  assumes "parse_args L H (start L) args = Continue st"
  shows "(model st \<noteq> []) = supplies args ''model''"
    and "has_prompt st = supplies args ''prompt''"
    and "has_messages st = supplies args ''message''"
    and "\<not> (has_prompt st \<and> has_messages st)"
proof -
  from parse_args_Continue [OF assms]
  show "(model st \<noteq> []) = supplies args ''model''" "has_prompt st = supplies args ''prompt''"
    "has_messages st = supplies args ''message''"
    by (simp_all add: effect_iff start_def initial_state_def requests_supplies)
  from parse_args_exclusive [OF assms]
  show "\<not> (has_prompt st \<and> has_messages st)"
    by (simp add: start_def initial_state_def)
qed

lemma ollama_no_result_unless_parsed:
  assumes "\<And>st. parse_args L H (start L) args \<noteq> Continue st"
  shows "no_result (ollama L H nargout args)"
proof (cases "nargout = 2 \<and> length args mod 2 = 0")
  case False
  then show ?thesis by (auto simp: ollama_def Let_def)
next
  case True
  from assms obtain out cs where s: "parse_args L H (start L) args = Stop out cs"
    by (cases "parse_args L H (start L) args") auto
  with parse_args_initial_ok [of L H "is_running L []" args]
  have "early_outcome out" "list_all helper_call cs"
    by (auto simp: start_def dest: extends_helper)
  moreover have "ollama L H nargout args = (out, cs)"
    using True s by (simp add: ollama_def Let_def start_def)
  ultimately show ?thesis by (simp add: no_result_def)
qed

subsection \<open>The pixel buffer of the figure helper\<close>

lemma linear_index_bound:
  fixes a b m n :: nat
  assumes "a < m" and "b < n"
  shows "a + m * b < m * n"
proof -
  have "a + m * b < m + m * b" using assms(1) by simp
  also have "\<dots> = m * Suc b" by simp
  also have "\<dots> \<le> m * n" using assms(2) by (intro mult_le_mono2) simp
  finally show ?thesis .
qed

lemma nd_elem_in_range:
  assumes "r < nd_rows A" and "c < nd_columns A" and "k < nd_pages A"
  shows "nd_elem A r c k = Some (nd_at A r c k)"
proof -
  have "c + nd_columns A * k < nd_columns A * nd_pages A"
    using assms(2,3) by (rule linear_index_bound)
  with assms(1) have "r + nd_rows A * (c + nd_columns A * k) < nd_rows A * (nd_columns A * nd_pages A)"
    by (rule linear_index_bound)
  then show ?thesis
    by (simp add: nd_elem_def nd_at_def nd_numel_def Let_def mult.assoc)
qed

lemma copy_columns_ok:
  assumes "3 \<le> nd_pages A" and "r < nd_rows A"
  shows "\<forall>c \<in> set cs. c < nd_columns A \<Longrightarrow> length pixels + 3 * length cs \<le> nd_numel A \<Longrightarrow>
         copy_columns A r cs pixels = Some (pixels @ concat (map (rgb A r) cs))"
proof (induction cs arbitrary: pixels)
  case Nil
  then show ?case by simp
next
  case (Cons c cs)
  have e: "nd_elem A r c 0 = Some (nd_at A r c 0)" "nd_elem A r c 1 = Some (nd_at A r c 1)"
    "nd_elem A r c 2 = Some (nd_at A r c 2)"
    using assms Cons.prems(1) by (simp_all add: nd_elem_in_range)
  have l: "length pixels + 3 < nd_numel A \<or> length pixels + 3 = nd_numel A"
    using Cons.prems(2) by auto
  have "copy_columns A r (c # cs) pixels = copy_columns A r cs (pixels @ rgb A r c)"
    using e l by (auto simp: store_pixel_def rgb_def)
  also have "\<dots> = Some ((pixels @ rgb A r c) @ concat (map (rgb A r) cs))"
    using Cons.prems by (intro Cons.IH) (simp_all add: rgb_def)
  finally show ?case by simp
qed

lemma length_pixel_row [simp]: "length (pixel_row A r) = 3 * nd_columns A"
  by (simp add: pixel_row_def rgb_def length_concat comp_def sum_list_triv)

lemma copy_rows_ok:
  assumes "3 \<le> nd_pages A"
  shows "\<forall>r \<in> set rs. r < nd_rows A \<Longrightarrow>
         length pixels + 3 * nd_columns A * length rs \<le> nd_numel A \<Longrightarrow>
         copy_rows A rs pixels = Some (pixels @ concat (map (pixel_row A) rs))"
proof (induction rs arbitrary: pixels)
  case Nil
  then show ?case by simp
next
  case (Cons r rs)
  have "copy_columns A r [0..<nd_columns A] pixels = Some (pixels @ pixel_row A r)"
    unfolding pixel_row_def
    using assms Cons.prems by (intro copy_columns_ok) (auto simp: algebra_simps)
  then have "copy_rows A (r # rs) pixels = copy_rows A rs (pixels @ pixel_row A r)"
    by simp
  also have "\<dots> = Some ((pixels @ pixel_row A r) @ concat (map (pixel_row A) rs))"
    using Cons.prems by (intro Cons.IH) (simp_all add: algebra_simps)
  finally show ?case by simp
qed

lemma copy_rows_row_major:
  assumes "3 \<le> nd_pages A"
  shows "copy_rows A [0..<nd_rows A] [] = Some (row_major A)"
proof -
  have "3 * nd_columns A * nd_rows A \<le> nd_rows A * nd_columns A * nd_pages A"
    using assms by (simp add: mult.commute mult_le_mono)
  then show ?thesis
    unfolding row_major_def
    using copy_rows_ok [OF assms, of "[0..<nd_rows A]" "[]"] by (simp add: nd_numel_def)
qed

lemma nth_concat_uniform:
  "\<forall>x \<in> set xs. length (f x) = n \<Longrightarrow> i < length xs \<Longrightarrow> j < n \<Longrightarrow>
   concat (map f xs) ! (i * n + j) = f (xs ! i) ! j"
proof (induction xs arbitrary: i)
  case Nil
  then show ?case by simp
next
  case (Cons x xs)
  show ?case
  proof (cases i)
    case 0
    with Cons.prems show ?thesis by (simp add: nth_append)
  next
    case (Suc i')
    with Cons.prems have "concat (map f xs) ! (i' * n + j) = f (xs ! i') ! j"
      by (intro Cons.IH) simp_all
    with Suc Cons.prems show ?thesis by (simp add: nth_append)
  qed
qed

lemma length_row_major: "length (row_major A) = nd_rows A * nd_columns A * 3"
  by (simp add: row_major_def length_concat comp_def sum_list_triv)

lemma row_major_nth:
  assumes "r < nd_rows A" and "c < nd_columns A" and "k < 3"
  shows "row_major A ! ((r * nd_columns A + c) * 3 + k) = nd_at A r c k"
proof -
  have j: "c * 3 + k < 3 * nd_columns A" using assms(2,3) by simp
  have i: "(r * nd_columns A + c) * 3 + k = r * (3 * nd_columns A) + (c * 3 + k)"
    by (simp add: algebra_simps)
  have "row_major A ! ((r * nd_columns A + c) * 3 + k)
      = concat (map (pixel_row A) [0..<nd_rows A]) ! (r * (3 * nd_columns A) + (c * 3 + k))"
    unfolding row_major_def i ..
  also have "\<dots> = pixel_row A ([0..<nd_rows A] ! r) ! (c * 3 + k)"
    using assms(1) j by (intro nth_concat_uniform) simp_all
  also have "\<dots> = concat (map (rgb A r) [0..<nd_columns A]) ! (c * 3 + k)"
    using assms(1) by (simp add: pixel_row_def)
  also have "\<dots> = rgb A r ([0..<nd_columns A] ! c) ! k"
    using assms(2,3) by (intro nth_concat_uniform) (simp_all add: rgb_def)
  also have "\<dots> = nd_at A r c k"
  proof -
    from assms(3) consider "k = 0" | "k = 1" | "k = 2" by linarith
    then show ?thesis using assms(2) by cases (simp_all add: rgb_def)
  qed
  finally show ?thesis .
qed

subsection \<open>Where an exception of the library is caught\<close>

lemma caught_exceptions:
  "pull_model L (calls st) (source st) = Inl (Ollama_exception m) \<Longrightarrow>
     op_pullModel L st
       = (Returned (Some (OString m)) (Some (obool True)), calls st @ [Pull_model (source st)])"
  "copy_model L (calls st) (source st) (target st) = Inl (Ollama_exception m) \<Longrightarrow>
     op_copyModel L st
       = (Returned (Some (OString m)) (Some (obool True)),
          calls st @ [Copy_model (source st) (target st)])"
  "delete_model L (calls st) (source st) = Inl (Ollama_exception m) \<Longrightarrow>
     op_deleteModel L st
       = (Returned (Some (OString m)) (Some (obool True)), calls st @ [Delete_model (source st)])"
  "generate L (calls st) (model st) (prompt st) (think st) (sysmsg st) (options st) (images st)
     = Inl (Ollama_exception m) \<Longrightarrow>
     fst (op_generate L st) = Returned (Some (OString m)) (Some (obool True))"
  "chat L (calls st) (model st) (messages st) (think st) (sysmsg st) (options st)
     = Inl (Ollama_exception m) \<Longrightarrow>
     fst (op_chat L st) = Returned (Some (OString m)) (Some (obool True))"
  by (simp_all add: op_pullModel_def op_copyModel_def op_deleteModel_def op_generate_def
      op_chat_def catch_exception_def invoke_def called_def return_retval_def)

lemma caught_list_exceptions:
  "return_cellstr st \<Longrightarrow> list_models L (calls st) = Inl (Ollama_exception m) \<Longrightarrow>
     fst (op_listModels L st) = Returned (Some (OString m)) (Some (obool True))"
  "\<not> return_cellstr st \<Longrightarrow> list_model_json L (calls st) = Inl (Ollama_exception m) \<Longrightarrow>
     fst (op_listModels L st) = Returned (Some (OString m)) (Some (obool True))"
  "return_cellstr st \<Longrightarrow> list_running_models L (calls st) = Inl (Ollama_exception m) \<Longrightarrow>
     fst (op_listRunningModels L st) = Returned (Some (OString m)) (Some (obool True))"
  "\<not> return_cellstr st \<Longrightarrow> running_model_json L (calls st) = Inl (Ollama_exception m) \<Longrightarrow>
     fst (op_listRunningModels L st) = Returned (Some (OString m)) (Some (obool True))"
  by (simp_all add: op_listModels_def op_listRunningModels_def catch_exception_def invoke_def
      called_def return_retval_def)

lemma uncaught_exceptions:
  "load_model L (calls st) (source st) = Inl x \<Longrightarrow>
     op_loadModel L st = (Uncaught x, calls st @ [Load_model (source st)])"
  "unload_model L (calls st) (source st) = Inl x \<Longrightarrow>
     op_unloadModel L st = (Uncaught x, calls st @ [Unload_model (source st)])"
  "get_version L (calls st) = Inl x \<Longrightarrow>
     op_version L st = (Uncaught x, calls st @ [Get_version])"
  "list_models L (calls st) = Inl x \<Longrightarrow>
     op_modelInfo L st = (Uncaught x, calls st @ [List_models])"
  by (simp_all add: op_loadModel_def op_unloadModel_def op_version_def op_modelInfo_def
      uncaught_def invoke_def called_def)

section \<open>Exceptions of the library\<close>

text \<open>
  Claim C1. Every operation is meant to catch an exception of the library call it makes
  and to return the message of the exception with the error flag set. The branches for
  \<^verbatim>\<open>pullModel\<close>, \<^verbatim>\<open>copyModel\<close> and \<^verbatim>\<open>deleteModel\<close> do so; the branches for \<^verbatim>\<open>loadModel\<close>
  and \<^verbatim>\<open>unloadModel\<close> call the library outside any \<^verbatim>\<open>try\<close> block. The theorem evaluates
  the binding on \<^verbatim>\<open>loadModel\<close>, \<^verbatim>\<open>unloadModel\<close> and \<^verbatim>\<open>pullModel\<close> with the same model
  and the same exception: the first two let the exception leave the binding, the third
  returns its message and the flag.
\<close>

theorem C1_load_unload_propagate:
  "ollama demo_library plain_host 2 [OString ''loadModel'', OString ''gone'']
     = (Uncaught (Ollama_exception ''No response returned from server''),
        [Is_running, Load_model ''gone''])
   \<and> ollama demo_library plain_host 2 [OString ''unloadModel'', OString ''gone'']
     = (Uncaught (Ollama_exception ''No response returned from server''),
        [Is_running, Unload_model ''gone''])
   \<and> ollama demo_library plain_host 2 [OString ''pullModel'', OString ''gone'']
     = (Returned (Some (OString ''No response returned from server'')) (Some (obool True)),
        [Is_running, Pull_model ''gone''])"
  by code_simp

section \<open>Malformed argument lists\<close>

text \<open>
  Claim C5, as stated: an argument list of odd length, or with an empty name or value,
  or with a name that is not a character vector, always raises an error. It does not
  when an earlier \<^verbatim>\<open>serverURL\<close> pair points at a server that is not running: the binding
  returns at that pair, with \<open>false\<close> and the error flag, and never looks at the rest.
\<close>

theorem C5_counterexample:
  "isempty (OString [])
   \<and> ollama demo_library plain_host 2
        [OString ''serverURL'', OString ''http://down'', OString ''model'', OString []]
      = (Returned (Some (obool False)) (Some (obool True)),
         [Is_running, Set_server_url ''http://down'', Is_running])
   \<and> \<not> is_error (ollama demo_library plain_host 2
        [OString ''serverURL'', OString ''http://down'', OString ''model'', OString []])"
  by code_simp

text \<open>
  Claim C5, amended. An argument list of odd length raises an error. A pair with an
  empty name or value, or with a name that is not a character vector, raises an error
  when the loop reaches it, without any call to the library for it. The call then
  returns no result of an operation: its outcome is an error, or the early end that a
  pair before it has caused (the return for a server that is not running, an
  exception while an image file is read, a read outside a cell array), and the library
  has been asked nothing but helper calls. It is an error whenever no pair before it
  is named \<^verbatim>\<open>serverURL\<close>, \<^verbatim>\<open>imageFile\<close> or \<^verbatim>\<open>message\<close>.
\<close>

theorem C5_malformed_arguments:
  "(odd (length args) \<longrightarrow> is_error (ollama L H nargout args) \<and> no_result (ollama L H nargout args))
   \<and> (even (length pre) \<and> (isempty n \<or> isempty v \<or> \<not> is_string n) \<longrightarrow>
        (\<exists>m. parse_pair L H st n v = Stop (Error m) (calls st))
        \<and> no_result (ollama L H nargout (pre @ n # v # post))
        \<and> (quiet pre \<longrightarrow> is_error (ollama L H nargout (pre @ n # v # post))))"
proof (intro conjI impI)
  assume "odd (length args)"
  then have "length args mod 2 \<noteq> 0" by presburger
  then show "is_error (ollama L H nargout args)" "no_result (ollama L H nargout args)"
    by (simp_all add: ollama_def Let_def)
next
  assume a: "even (length pre) \<and> (isempty n \<or> isempty v \<or> \<not> is_string n)"
  then show "\<exists>m. parse_pair L H st n v = Stop (Error m) (calls st)"
    by (simp add: parse_pair_bad)
  from a have "no_result (ollama L H nargout (pre @ n # v # post))
       \<and> (quiet pre \<longrightarrow> is_error (ollama L H nargout (pre @ n # v # post)))"
    by (intro ollama_stops_at parse_pair_bad) simp_all
  then show "no_result (ollama L H nargout (pre @ n # v # post))"
    and "quiet pre \<Longrightarrow> is_error (ollama L H nargout (pre @ n # v # post))"
    by simp_all
qed

theorem C5_witness:
  "odd (length [OString ''model''])
   \<and> is_error (ollama demo_library plain_host 2 [OString ''model''])
   \<and> even (length [OString ''model'', OString ''phi''])
   \<and> isempty (OString [])
   \<and> quiet [OString ''model'', OString ''phi'']
   \<and> is_error (ollama demo_library plain_host 2
        ([OString ''model'', OString ''phi''] @ OString ''prompt'' # OString [] # []))
   \<and> no_result (ollama demo_library plain_host 2
        ([OString ''model'', OString ''phi''] @ OString ''prompt'' # OString [] # []))"
  using C5_malformed_arguments [where args = "[OString ''model'']" and L = demo_library
      and H = plain_host and nargout = 2 and pre = "[OString ''model'', OString ''phi'']"
      and n = "OString ''prompt''" and v = "OString []" and post = "[]"]
  by (simp add: quiet_def quiet_name_def)

section \<open>Type checks of the values\<close>

text \<open>
  Claim C6, as stated: a value that fails the type check of its parameter always raises
  an error. As for claim C5, it does not when an earlier \<^verbatim>\<open>serverURL\<close> pair has found
  the server not running: the binding has returned before it reaches the value.
\<close>

theorem C6_counterexample:
  "\<not> required_type ''model'' (OScalar Double_class 42)
   \<and> ollama demo_library plain_host 2
        [OString ''serverURL'', OString ''http://down'', OString ''model'', OScalar Double_class 42]
      = (Returned (Some (obool False)) (Some (obool True)),
         [Is_running, Set_server_url ''http://down'', Is_running])
   \<and> \<not> is_error (ollama demo_library plain_host 2
        [OString ''serverURL'', OString ''http://down'', OString ''model'', OScalar Double_class 42])"
  by code_simp

text \<open>
  Claim C6, amended. \<open>required_type\<close> is the table of the claim: a character vector
  for eleven parameters, a double scalar for the two time-outs, a cell array of two
  character vectors for \<^verbatim>\<open>copyModel\<close>, a scalar structure for \<^verbatim>\<open>options\<close>, a cell array
  with three columns for \<^verbatim>\<open>message\<close>. A value that fails the check of its parameter
  raises an error when the loop reaches the pair, before any call to the library is made
  for the pair. The call then returns no result of an operation and has asked the
  library nothing but helper calls; it raises an error whenever no pair before the
  offending one is named \<^verbatim>\<open>serverURL\<close>, \<^verbatim>\<open>imageFile\<close> or \<^verbatim>\<open>message\<close>.
\<close>

theorem C6_type_checks:
  "n \<in> set typed_parameters \<and> \<not> required_type n v \<and> even (length pre) \<longrightarrow>
     (\<exists>m. parse_pair L H st (OString n) v = Stop (Error m) (calls st))
     \<and> no_result (ollama L H nargout (pre @ OString n # v # post))
     \<and> (quiet pre \<longrightarrow> is_error (ollama L H nargout (pre @ OString n # v # post)))"
proof (intro impI)
  assume a: "n \<in> set typed_parameters \<and> \<not> required_type n v \<and> even (length pre)"
  then have 1: "\<exists>m. parse_pair L H st' (OString n) v = Stop (Error m) (calls st')" for st'
    by (simp add: type_check_fails)
  from a have "no_result (ollama L H nargout (pre @ OString n # v # post))
       \<and> (quiet pre \<longrightarrow> is_error (ollama L H nargout (pre @ OString n # v # post)))"
    by (intro ollama_stops_at 1) simp
  with 1 show "(\<exists>m. parse_pair L H st (OString n) v = Stop (Error m) (calls st))
     \<and> no_result (ollama L H nargout (pre @ OString n # v # post))
     \<and> (quiet pre \<longrightarrow> is_error (ollama L H nargout (pre @ OString n # v # post)))"
    by simp
qed

theorem C6_witness:
  "''readTimeout'' \<in> set typed_parameters
   \<and> \<not> required_type ''readTimeout'' (OString ''soon'')
   \<and> even (length [OString ''model'', OString ''phi''])
   \<and> quiet [OString ''model'', OString ''phi'']
   \<and> (\<exists>m. parse_pair demo_library plain_host (initial_state True) (OString ''readTimeout'')
          (OString ''soon'') = Stop (Error m) (calls (initial_state True)))
   \<and> is_error (ollama demo_library plain_host 2
        ([OString ''model'', OString ''phi''] @ OString ''readTimeout'' # OString ''soon'' # []))
   \<and> no_result (ollama demo_library plain_host 2
        ([OString ''model'', OString ''phi''] @ OString ''readTimeout'' # OString ''soon'' # []))"
proof -
  have h: "''readTimeout'' \<in> set typed_parameters
      \<and> \<not> required_type ''readTimeout'' (OString ''soon'')
      \<and> even (length [OString ''model'', OString ''phi''])"
    by (simp add: typed_parameters_def required_type_def character_vector_parameters_def)
  have q: "quiet [OString ''model'', OString ''phi'']"
    by (simp add: quiet_def quiet_name_def)
  from C6_type_checks [where n = "''readTimeout''" and v = "OString ''soon''" and L = demo_library
      and H = plain_host and nargout = 2 and pre = "[OString ''model'', OString ''phi'']"
      and post = "[]" and st = "initial_state True"] h q
  show ?thesis by blast
qed

section \<open>At most one of load, pull, copy, delete and unload\<close>




section \<open>Names that are not parameters\<close>

text \<open>
  Claim C8, as stated: a pair whose name is a character vector that is not a parameter
  is ignored, whatever its value. An empty value raises the error of the emptiness
  check, which comes before the name is looked at.
\<close>

theorem C8_counterexample:
  "''foo'' \<noteq> [] \<and> ''foo'' \<notin> set parameter_names
   \<and> ollama demo_library plain_host 2
        [OString ''Query'', OString ''status'', OString ''foo'', OString []]
      = (Error ''__ollama__: input arguments cannot be empty.'', [Is_running])
   \<and> ollama demo_library plain_host 2 [OString ''Query'', OString ''status'']
      = (Returned (Some (obool True)) (Some (obool False)), [Is_running])"
  by code_simp

text \<open>
  Claim C8, amended. A pair whose name is a non-empty character vector that is not
  among the twenty parameter names, and whose value is not empty, is ignored: the loop
  leaves every variable as it was, and the call gives the same outcome and makes the
  same calls to the library as the call without the pair.
\<close>

theorem C8_unknown_pair_ignored:
  "n \<noteq> [] \<and> n \<notin> set parameter_names \<and> \<not> isempty v \<and> even (length pre) \<longrightarrow>
     parse_pair L H st (OString n) v = Continue st
     \<and> ollama L H nargout (pre @ OString n # v # post) = ollama L H nargout (pre @ post)"
proof (intro impI)
  assume a: "n \<noteq> [] \<and> n \<notin> set parameter_names \<and> \<not> isempty v \<and> even (length pre)"
  have "dispatch_param L H st' n v = Continue st'" for st'
    using a by (simp add: parameter_names_def dispatch_param_def)
  then have p: "parse_pair L H st' (OString n) v = Continue st'" for st'
    using a by (simp add: parse_pair_named)
  have "parse_args L H st' (pre @ OString n # v # post) = parse_args L H st' (pre @ post)" for st'
    using a by (simp add: parse_args_append p)
  moreover have "length (pre @ OString n # v # post) mod 2 = length (pre @ post) mod 2"
    by simp
  ultimately show "parse_pair L H st (OString n) v = Continue st
     \<and> ollama L H nargout (pre @ OString n # v # post) = ollama L H nargout (pre @ post)"
    using p unfolding ollama_def by (simp add: Let_def)
qed

theorem C8_witness:
  "''foo'' \<noteq> [] \<and> ''foo'' \<notin> set parameter_names \<and> \<not> isempty (OString ''bar'')
   \<and> even (length [OString ''Query'', OString ''status''])
   \<and> parse_pair demo_library plain_host (initial_state True) (OString ''foo'') (OString ''bar'')
        = Continue (initial_state True)
   \<and> ollama demo_library plain_host 2
        ([OString ''Query'', OString ''status''] @ OString ''foo'' # OString ''bar'' # [])
      = ollama demo_library plain_host 2 ([OString ''Query'', OString ''status''] @ [])"
proof -
  have h: "''foo'' \<noteq> [] \<and> ''foo'' \<notin> set parameter_names \<and> \<not> isempty (OString ''bar'')
      \<and> even (length [OString ''Query'', OString ''status''])"
    by (simp add: parameter_names_def)
  from C8_unknown_pair_ignored [where n = "''foo''" and v = "OString ''bar''"
      and pre = "[OString ''Query'', OString ''status'']" and post = "[]" and L = demo_library
      and H = plain_host and nargout = 2 and st = "initial_state True"] h
  show ?thesis by blast
qed

section \<open>Which operation runs\<close>



section \<open>Calls into the library\<close>

text \<open>
  Claim C3, as stated: every operation makes exactly one call into the library. The
  information on a model does not: it first asks for the list of models, and then asks
  for the information only if the name is in the list. For a model that is absent it
  never calls \<^verbatim>\<open>show_model_info\<close>; for a model that is present it makes two calls.
\<close>

theorem C3_counterexample:
  "ollama demo_library plain_host 2 [OString ''modelInfo'', OString ''absent'']
     = (Returned None (Some (obool False)), [Is_running, List_models])
   \<and> ollama demo_library plain_host 2 [OString ''modelInfo'', OString ''phi'']
     = (Returned (Some (OString ''{}'')) (Some (obool False)),
        [Is_running, List_models, Show_model_info ''phi''])
   \<and> operation_calls (ollama demo_library plain_host 2 [OString ''modelInfo'', OString ''phi''])
     = [List_models, Show_model_info ''phi'']"
  by code_simp

text \<open>
  Claim C3, amended. In a call whose arguments are accepted, with the server running
  (and, for the inference, with a model and a prompt or a message), the calls that the
  loop has made are helper calls only, and after the loop: the version query, load,
  pull, copy, delete, unload, the two lists, generate and chat make exactly one call,
  the call of that operation; the status query makes none; the information on a model
  calls \<^verbatim>\<open>list_models\<close> once and then \<^verbatim>\<open>show_model_info\<close> at most once for each entry
  of the list that equals the name, and exactly once for each when none of these calls
  throws.
\<close>

theorem C3_calls_per_operation:
  "(running st \<and> (chosen st = Inference \<longrightarrow> model st \<noteq> [] \<and> (has_prompt st \<or> has_messages st)) \<longrightarrow>
      (chosen st = Status \<longrightarrow> snd (run_operation L st) = calls st)
      \<and> (chosen st = Model_info \<longrightarrow>
           (\<exists>k. snd (run_operation L st)
                   = calls st @ List_models # replicate k (Show_model_info (modelInfoName st))
              \<and> (\<forall>ms. list_models L (calls st) = Inr ms \<longrightarrow> k \<le> count_list ms (modelInfoName st))
              \<and> (\<forall>ms. list_models L (calls st) = Inr ms
                     \<and> (\<forall>h. \<exists>j. show_model_info L h (modelInfoName st) = Inr j) \<longrightarrow>
                   k = count_list ms (modelInfoName st))))
      \<and> (chosen st \<noteq> Status \<and> chosen st \<noteq> Model_info \<longrightarrow>
           (\<exists>c. operation_call st (chosen st) = Some c \<and> \<not> helper_call c
              \<and> snd (run_operation L st) = calls st @ [c])))
   \<and> (nargout = 2 \<and> even (length args) \<and> parse_args L H (start L) args = Continue st \<longrightarrow>
        ollama L H nargout args = run_operation L st \<and> list_all helper_call (calls st))"
proof (intro conjI impI)
  assume "chosen st = Status"
  then show "snd (run_operation L st) = calls st"
    by (simp add: run_operation_perform)
next
  assume "chosen st = Model_info"
  then show "\<exists>k. snd (run_operation L st)
                   = calls st @ List_models # replicate k (Show_model_info (modelInfoName st))
              \<and> (\<forall>ms. list_models L (calls st) = Inr ms \<longrightarrow> k \<le> count_list ms (modelInfoName st))
              \<and> (\<forall>ms. list_models L (calls st) = Inr ms
                     \<and> (\<forall>h. \<exists>j. show_model_info L h (modelInfoName st) = Inr j) \<longrightarrow>
                   k = count_list ms (modelInfoName st))"
    using op_modelInfo_trace [of L st] by (simp add: run_operation_perform)
next
  assume a: "running st \<and> (chosen st = Inference \<longrightarrow> model st \<noteq> [] \<and> (has_prompt st \<or> has_messages st))"
    and b: "chosen st \<noteq> Status \<and> chosen st \<noteq> Model_info"
  then obtain c where c: "operation_call st (chosen st) = Some c"
    "snd (run_operation L st) = calls st @ [c]"
    using one_operation_call [of st L] by blast
  from c(1) have "\<not> helper_call c"
    by (cases "chosen st") (auto split: if_splits)
  with c show "\<exists>c. operation_call st (chosen st) = Some c \<and> \<not> helper_call c
              \<and> snd (run_operation L st) = calls st @ [c]"
    by blast
next
  assume "nargout = 2 \<and> even (length args) \<and> parse_args L H (start L) args = Continue st"
  then show "ollama L H nargout args = run_operation L st" "list_all helper_call (calls st)"
    by (auto intro: ollama_parsed parsed_helper_calls)
qed

theorem C3_witness:
  "running ((initial_state True)\<lparr>source := ''phi'', do_pullModel := True\<rparr>)
   \<and> chosen ((initial_state True)\<lparr>source := ''phi'', do_pullModel := True\<rparr>) = Pull
   \<and> (\<exists>c. operation_call ((initial_state True)\<lparr>source := ''phi'', do_pullModel := True\<rparr>) Pull
             = Some c \<and> \<not> helper_call c
          \<and> snd (run_operation demo_library
                   ((initial_state True)\<lparr>source := ''phi'', do_pullModel := True\<rparr>))
             = calls ((initial_state True)\<lparr>source := ''phi'', do_pullModel := True\<rparr>) @ [c])
   \<and> (2::int) = 2 \<and> even (length [OString ''pullModel'', OString ''phi''])
   \<and> parse_args demo_library plain_host (start demo_library) [OString ''pullModel'', OString ''phi'']
      = Continue ((initial_state True)\<lparr>source := ''phi'', do_pullModel := True\<rparr>)
   \<and> ollama demo_library plain_host 2 [OString ''pullModel'', OString ''phi'']
      = run_operation demo_library ((initial_state True)\<lparr>source := ''phi'', do_pullModel := True\<rparr>)
   \<and> list_all helper_call (calls ((initial_state True)\<lparr>source := ''phi'', do_pullModel := True\<rparr>))
   \<and> chosen ((initial_state True)\<lparr>query_status := True\<rparr>) = Status
   \<and> snd (run_operation demo_library ((initial_state True)\<lparr>query_status := True\<rparr>))
      = calls ((initial_state True)\<lparr>query_status := True\<rparr>)
   \<and> chosen ((initial_state True)\<lparr>modelInfoName := ''phi'', do_modelInfo := True\<rparr>) = Model_info
   \<and> (\<exists>k. snd (run_operation demo_library
                   ((initial_state True)\<lparr>modelInfoName := ''phi'', do_modelInfo := True\<rparr>))
             = calls ((initial_state True)\<lparr>modelInfoName := ''phi'', do_modelInfo := True\<rparr>)
                 @ List_models # replicate k (Show_model_info ''phi'')
          \<and> k \<le> count_list [''llama3'', ''phi''] ''phi'')"
proof -
  let ?P = "(initial_state True)\<lparr>source := ''phi'', do_pullModel := True\<rparr>"
  let ?Q = "(initial_state True)\<lparr>query_status := True\<rparr>"
  let ?I = "(initial_state True)\<lparr>modelInfoName := ''phi'', do_modelInfo := True\<rparr>"
  have h: "running ?P \<and> chosen ?P = Pull \<and> (2::int) = 2
      \<and> even (length [OString ''pullModel'', OString ''phi''])
      \<and> parse_args demo_library plain_host (start demo_library)
           [OString ''pullModel'', OString ''phi''] = Continue ?P"
    by code_simp
  have q: "running ?Q \<and> chosen ?Q = Status"
    by code_simp
  have i: "running ?I \<and> chosen ?I = Model_info \<and> modelInfoName ?I = ''phi''
      \<and> list_models demo_library (calls ?I) = Inr [''llama3'', ''phi'']"
    by code_simp
  have d: "Pull \<noteq> Inference" "Pull \<noteq> Status" "Pull \<noteq> Model_info"
    "Status \<noteq> Inference" "Model_info \<noteq> Inference"
    by simp_all
  from C3_calls_per_operation [where st = ?P and L = demo_library and H = plain_host
      and nargout = 2 and args = "[OString ''pullModel'', OString ''phi'']"] h d
  have 1: "(\<exists>c. operation_call ?P Pull = Some c \<and> \<not> helper_call c
            \<and> snd (run_operation demo_library ?P) = calls ?P @ [c])
      \<and> ollama demo_library plain_host 2 [OString ''pullModel'', OString ''phi'']
          = run_operation demo_library ?P
      \<and> list_all helper_call (calls ?P)"
    by metis
  from C3_calls_per_operation [where st = ?Q and L = demo_library] q d
  have 2: "snd (run_operation demo_library ?Q) = calls ?Q"
    by metis
  from C3_calls_per_operation [where st = ?I and L = demo_library] i d
  have 3: "\<exists>k. snd (run_operation demo_library ?I)
                 = calls ?I @ List_models # replicate k (Show_model_info ''phi'')
             \<and> k \<le> count_list [''llama3'', ''phi''] ''phi''"
    by metis
  from h q i 1 2 3 show ?thesis by blast
qed

section \<open>The inference stage\<close>

text \<open>
  Claim C4. The inference stage is reached when the arguments are accepted and no
  other operation is chosen. There a model is required (it is present exactly when the
  arguments supply \<^verbatim>\<open>model\<close>), else an error is raised; with neither \<^verbatim>\<open>prompt\<close> nor
  \<^verbatim>\<open>message\<close> an error is raised; with \<^verbatim>\<open>prompt\<close> the binding calls \<^verbatim>\<open>generate\<close>, with
  \<^verbatim>\<open>message\<close> it calls \<^verbatim>\<open>chat\<close>, each once and as the only call after the helper calls
  of the loop. Both are never present at this stage: arguments that supply both are
  never accepted and give no result of an operation, and the second of the two raises
  an error when the loop reaches it.
\<close>

theorem C4_inference_stage:
  "(nargout = 2 \<and> even (length args) \<and> parse_args L H (start L) args = Continue st
      \<and> chosen st = Inference \<longrightarrow>
        (model st \<noteq> []) = supplies args ''model''
        \<and> has_prompt st = supplies args ''prompt''
        \<and> has_messages st = supplies args ''message''
        \<and> \<not> (has_prompt st \<and> has_messages st)
        \<and> ollama L H nargout args =
            (if model st = [] then (Error ''__ollama: 'model' parameter is required.'', calls st)
             else if \<not> has_prompt st \<and> \<not> has_messages st
             then (Error ''__ollama: either 'prompt' or 'messages' parameter is required.'', calls st)
             else if has_prompt st then op_generate L st
             else op_chat L st)
        \<and> snd (op_generate L st) =
            calls st @ [Generate (model st) (prompt st) (think st) (sysmsg st) (options st) (images st)]
        \<and> snd (op_chat L st) =
            calls st @ [Chat (model st) (messages st) (think st) (sysmsg st) (options st)]
        \<and> list_all helper_call (calls st))
   \<and> (supplies args' ''prompt'' \<and> supplies args' ''message'' \<longrightarrow>
        no_result (ollama L H nargout args'))
   \<and> (has_prompt stp \<longrightarrow>
        (\<exists>m. parse_pair L H stp (OString ''message'') v = Stop (Error m) (calls stp)))
   \<and> (has_messages stm \<longrightarrow>
        (\<exists>m. parse_pair L H stm (OString ''prompt'') v = Stop (Error m) (calls stm)))"
proof (intro conjI impI)
  assume a: "nargout = 2 \<and> even (length args) \<and> parse_args L H (start L) args = Continue st
      \<and> chosen st = Inference"
  then have p: "parse_args L H (start L) args = Continue st" by simp
  from parsed_inputs [OF p]
  show "(model st \<noteq> []) = supplies args ''model''" "has_prompt st = supplies args ''prompt''"
    "has_messages st = supplies args ''message''" "\<not> (has_prompt st \<and> has_messages st)"
    by simp_all
  from a have "ollama L H nargout args = inference L st"
    by (simp add: ollama_parsed run_operation_perform)
  then show "ollama L H nargout args =
            (if model st = [] then (Error ''__ollama: 'model' parameter is required.'', calls st)
             else if \<not> has_prompt st \<and> \<not> has_messages st
             then (Error ''__ollama: either 'prompt' or 'messages' parameter is required.'', calls st)
             else if has_prompt st then op_generate L st
             else op_chat L st)"
    by (simp add: inference_def)
  show "snd (op_generate L st) =
            calls st @ [Generate (model st) (prompt st) (think st) (sysmsg st) (options st) (images st)]"
    "snd (op_chat L st) =
            calls st @ [Chat (model st) (messages st) (think st) (sysmsg st) (options st)]"
    by (simp_all add: op_traces)
  from p show "list_all helper_call (calls st)" by (rule parsed_helper_calls)
next
  assume b: "supplies args' ''prompt'' \<and> supplies args' ''message''"
  have "parse_args L H (start L) args' \<noteq> Continue st'" for st'
    using parsed_inputs [of L H args' st'] b by auto
  then show "no_result (ollama L H nargout args')"
    by (rule ollama_no_result_unless_parsed)
next
  assume "has_prompt stp"
  then show "\<exists>m. parse_pair L H stp (OString ''message'') v = Stop (Error m) (calls stp)"
    by (rule conflict_prompt_message)
next
  assume "has_messages stm"
  then show "\<exists>m. parse_pair L H stm (OString ''prompt'') v = Stop (Error m) (calls stm)"
    by (rule conflict_prompt_message)
qed

theorem C4_witness:
  "(2::int) = 2
   \<and> even (length [OString ''model'', OString ''phi'', OString ''prompt'', OString ''hi''])
   \<and> parse_args demo_library plain_host (start demo_library)
        [OString ''model'', OString ''phi'', OString ''prompt'', OString ''hi'']
      = Continue ((initial_state True)\<lparr>model := ''phi'', prompt := ''hi'', has_prompt := True\<rparr>)
   \<and> chosen ((initial_state True)\<lparr>model := ''phi'', prompt := ''hi'', has_prompt := True\<rparr>)
      = Inference
   \<and> supplies [OString ''model'', OString ''phi'', OString ''prompt'', OString ''hi''] ''prompt''
   \<and> ollama demo_library plain_host 2
        [OString ''model'', OString ''phi'', OString ''prompt'', OString ''hi'']
      = op_generate demo_library
          ((initial_state True)\<lparr>model := ''phi'', prompt := ''hi'', has_prompt := True\<rparr>)
   \<and> snd (op_generate demo_library
            ((initial_state True)\<lparr>model := ''phi'', prompt := ''hi'', has_prompt := True\<rparr>))
      = [Is_running, Generate ''phi'' ''hi'' ''false'' [] [] []]
   \<and> supplies [OString ''prompt'', OString ''hi'', OString ''message'', OString ''x''] ''prompt''
   \<and> supplies [OString ''prompt'', OString ''hi'', OString ''message'', OString ''x''] ''message''
   \<and> no_result (ollama demo_library plain_host 2
        [OString ''prompt'', OString ''hi'', OString ''message'', OString ''x''])
   \<and> has_prompt ((initial_state True)\<lparr>has_prompt := True\<rparr>)
   \<and> (\<exists>m. parse_pair demo_library plain_host ((initial_state True)\<lparr>has_prompt := True\<rparr>)
          (OString ''message'') (OString ''x'')
        = Stop (Error m) (calls ((initial_state True)\<lparr>has_prompt := True\<rparr>)))
   \<and> has_messages ((initial_state True)\<lparr>has_messages := True\<rparr>)
   \<and> (\<exists>m. parse_pair demo_library plain_host ((initial_state True)\<lparr>has_messages := True\<rparr>)
          (OString ''prompt'') (OString ''x'')
        = Stop (Error m) (calls ((initial_state True)\<lparr>has_messages := True\<rparr>)))"
proof -
  let ?A = "[OString ''model'', OString ''phi'', OString ''prompt'', OString ''hi'']"
  let ?B = "[OString ''prompt'', OString ''hi'', OString ''message'', OString ''x'']"
  let ?S = "(initial_state True)\<lparr>model := ''phi'', prompt := ''hi'', has_prompt := True\<rparr>"
  let ?S1 = "(initial_state True)\<lparr>has_prompt := True\<rparr>"
  let ?S2 = "(initial_state True)\<lparr>has_messages := True\<rparr>"
  have h: "(2::int) = 2 \<and> even (length ?A)
      \<and> parse_args demo_library plain_host (start demo_library) ?A = Continue ?S
      \<and> chosen ?S = Inference \<and> supplies ?A ''prompt''
      \<and> supplies ?B ''prompt'' \<and> supplies ?B ''message''
      \<and> has_prompt ?S1 \<and> has_messages ?S2"
    by code_simp
  have e: "model ?S \<noteq> [] \<and> has_prompt ?S
      \<and> calls ?S @ [Generate (model ?S) (prompt ?S) (think ?S) (sysmsg ?S) (options ?S) (images ?S)]
          = [Is_running, Generate ''phi'' ''hi'' ''false'' [] [] []]"
    by code_simp
  from C4_inference_stage [where nargout = 2 and args = ?A and L = demo_library and H = plain_host
      and st = ?S and args' = ?B and stp = ?S1 and stm = ?S2 and v = "OString ''x''"] h
  have c: "ollama demo_library plain_host 2 ?A =
        (if model ?S = [] then (Error ''__ollama: 'model' parameter is required.'', calls ?S)
         else if \<not> has_prompt ?S \<and> \<not> has_messages ?S
         then (Error ''__ollama: either 'prompt' or 'messages' parameter is required.'', calls ?S)
         else if has_prompt ?S then op_generate demo_library ?S
         else op_chat demo_library ?S)"
    and t: "snd (op_generate demo_library ?S) =
        calls ?S @ [Generate (model ?S) (prompt ?S) (think ?S) (sysmsg ?S) (options ?S) (images ?S)]"
    and n: "no_result (ollama demo_library plain_host 2 ?B)"
    and p1: "\<exists>m. parse_pair demo_library plain_host ?S1 (OString ''message'') (OString ''x'')
              = Stop (Error m) (calls ?S1)"
    and p2: "\<exists>m. parse_pair demo_library plain_host ?S2 (OString ''prompt'') (OString ''x'')
              = Stop (Error m) (calls ?S2)"
    by blast+
  from c e have g: "ollama demo_library plain_host 2 ?A = op_generate demo_library ?S"
    by simp
  from t e have t': "snd (op_generate demo_library ?S)
      = [Is_running, Generate ''phi'' ''hi'' ''false'' [] [] []]"
    by simp
  from h g t' n p1 p2 show ?thesis by blast
qed

section \<open>Information on a model that the server does not have\<close>



section \<open>The figure as a Base64 string\<close>

text \<open>
  Claim C7. For an argument that is the handle of a figure whose snapshot has at least
  three pages, \<^verbatim>\<open>fig2base64\<close> builds the buffer of rows times columns times three bytes in
  which the byte at position \<open>(r * cols + c) * 3 + k\<close> is the element of row \<open>r\<close>, column
  \<open>c\<close> and page \<open>k\<close> of the snapshot, hands it to \<^verbatim>\<open>fpng\<close> with the number of columns as
  width, the number of rows as height and three channels, and returns the Base64
  encoding of the PNG that \<^verbatim>\<open>fpng\<close> produces; when \<^verbatim>\<open>fpng\<close> fails it raises an error
  and returns nothing.
\<close>

theorem C7_figure_to_base64:
  "length args = 1 \<and> double_value H (args ! 0) = Inr h \<and> isa (get_object G h) ''figure''
   \<and> 3 \<le> nd_pages (get_pixels G h) \<longrightarrow>
     (\<exists>pixels.
        length pixels = nd_rows (get_pixels G h) * nd_columns (get_pixels G h) * 3
        \<and> (\<forall>r c k. r < nd_rows (get_pixels G h) \<and> c < nd_columns (get_pixels G h) \<and> k < 3 \<longrightarrow>
              pixels ! ((r * nd_columns (get_pixels G h) + c) * 3 + k) = nd_at (get_pixels G h) r c k)
        \<and> fig2base64 G H args =
            (case fpng_encode_image_to_memory G pixels
                    (nd_columns (get_pixels G h)) (nd_rows (get_pixels G h)) 3 of
               None \<Rightarrow> Fig_error ''fig2base64: unable to convert image to PNG.''
             | Some png \<Rightarrow> Fig_returned (base64_encode G png)))"
proof (intro impI)
  assume a: "length args = 1 \<and> double_value H (args ! 0) = Inr h \<and> isa (get_object G h) ''figure''
     \<and> 3 \<le> nd_pages (get_pixels G h)"
  let ?A = "get_pixels G h"
  from a have go: "get_object G h \<noteq> No_object" by auto
  from a have "copy_rows ?A [0..<nd_rows ?A] [] = Some (row_major ?A)"
    by (simp add: copy_rows_row_major)
  with a go have "fig2base64 G H args =
      (case fpng_encode_image_to_memory G (row_major ?A) (nd_columns ?A) (nd_rows ?A) 3 of
         None \<Rightarrow> Fig_error ''fig2base64: unable to convert image to PNG.''
       | Some png \<Rightarrow> Fig_returned (base64_encode G png))"
    by (simp add: fig2base64_def encode_snapshot_def Let_def)
  moreover have "length (row_major ?A) = nd_rows ?A * nd_columns ?A * 3"
    by (rule length_row_major)
  moreover have "\<forall>r c k. r < nd_rows ?A \<and> c < nd_columns ?A \<and> k < 3 \<longrightarrow>
      row_major ?A ! ((r * nd_columns ?A + c) * 3 + k) = nd_at ?A r c k"
    using row_major_nth [of _ ?A] by blast
  ultimately show "\<exists>pixels.
        length pixels = nd_rows ?A * nd_columns ?A * 3
        \<and> (\<forall>r c k. r < nd_rows ?A \<and> c < nd_columns ?A \<and> k < 3 \<longrightarrow>
              pixels ! ((r * nd_columns ?A + c) * 3 + k) = nd_at ?A r c k)
        \<and> fig2base64 G H args =
            (case fpng_encode_image_to_memory G pixels (nd_columns ?A) (nd_rows ?A) 3 of
               None \<Rightarrow> Fig_error ''fig2base64: unable to convert image to PNG.''
             | Some png \<Rightarrow> Fig_returned (base64_encode G png))"
    by blast
qed

theorem C7_witness:
  "length [OScalar Double_class 1] = 1
   \<and> double_value plain_host ([OScalar Double_class 1] ! 0) = Inr 1
   \<and> isa (get_object demo_graphics 1) ''figure''
   \<and> 3 \<le> nd_pages (get_pixels demo_graphics 1)
   \<and> (\<exists>pixels.
        length pixels = nd_rows (get_pixels demo_graphics 1) * nd_columns (get_pixels demo_graphics 1) * 3
        \<and> fig2base64 demo_graphics plain_host [OScalar Double_class 1] =
            (case fpng_encode_image_to_memory demo_graphics pixels
                    (nd_columns (get_pixels demo_graphics 1)) (nd_rows (get_pixels demo_graphics 1)) 3 of
               None \<Rightarrow> Fig_error ''fig2base64: unable to convert image to PNG.''
             | Some png \<Rightarrow> Fig_returned (base64_encode demo_graphics png)))
   \<and> fig2base64 demo_graphics plain_host [OScalar Double_class 1] = Fig_returned ''aaabbb''"
proof -
  have h: "length [OScalar Double_class 1] = 1
      \<and> double_value plain_host ([OScalar Double_class 1] ! 0) = Inr 1
      \<and> isa (get_object demo_graphics 1) ''figure''
      \<and> 3 \<le> nd_pages (get_pixels demo_graphics 1)"
    by (simp add: demo_graphics_def)
  have e: "fig2base64 demo_graphics plain_host [OScalar Double_class 1] = Fig_returned ''aaabbb''"
    by code_simp
  from C7_figure_to_base64 [where args = "[OScalar Double_class 1]" and H = plain_host and h = 1
      and G = demo_graphics] h e
  show ?thesis by blast
qed

end
